theory Spec2Isabelle
  imports Complex_Main "HOL-Library.Sublist" "HOL-Library.AList"
begin

section \<open>Data model\<close>

text \<open>
  JavaScript numbers are modelled by rationals (integer counters by \<open>int\<close>). Where
  \<open>generateUserData\<close> computes likes, comments, shares and the engagement rate, every
  operation is rounded to the nearest double (\<open>round_double\<close> below), because the floors
  and the two decimal places that it stores depend on that rounding. The other
  computations are carried out exactly: the statements proved about them do not depend
  on the rounding. A field that the code reads through a default (\<open>x || d\<close>) or that a
  data source may omit is an \<open>option\<close>, with \<open>None\<close> for \<open>undefined\<close>.

  The fields \<open>engagementRate\<close> and \<open>influenceScore\<close> hold either a number or the string
  that \<open>Number.prototype.toFixed\<close> produced. Such a string is represented by its number
  of decimal places and its scaled integer value: \<open>Fixed 2 1234\<close> is the string "12.34".
\<close>

datatype jsval = Undefined | Number rat | Fixed nat int

record user =
  userId :: string
  username :: string
  age :: "int option"
  gender :: "string option"
  city :: "string option"
  interests :: "string list option"
  followers :: "int option"
  following :: "int option"
  posts :: "int option"
  likes :: "int option"
  comments :: "int option"
  shares :: "int option"
  engagementRate :: jsval
  influenceScore :: jsval
  segment :: "string option"
  segmentColor :: "string option"
  segmentId :: "int option"

text \<open>The object \<open>{...user, similarity, sharedInterests, reason}\<close> of \<open>getRecommendations\<close>.\<close>

record recommendation = user +
  similarity :: rat
  sharedInterests :: "string list"
  reason :: string

record segment_def =
  seg_id :: int
  name :: string
  color :: string
  minFollowers :: int
  minEngagement :: rat

text \<open>One value of the object that \<open>getSegmentStats\<close> returns.\<close>

record segment_stats =
  st_name :: "string option"
  st_color :: string
  st_count :: nat
  percentage :: jsval
  avgEngagement :: jsval
  avgFollowers :: int
  avgPosts :: "int option"
  avgInfluence :: jsval

text \<open>The points of the hourly curve and of the weekly trend.\<close>

record hour_point =
  hour :: nat
  engagement :: int

record day_point =
  day :: string
  day_engagement :: int
  day_followers :: int

section \<open>JavaScript primitives\<close>

text \<open>Truthiness of a possibly missing string, of a possibly missing number, of a \<open>jsval\<close>.\<close>

definition truthy_str :: "string option \<Rightarrow> bool" where
  "truthy_str s = (case s of None \<Rightarrow> False | Some t \<Rightarrow> t \<noteq> [])"

definition truthy :: "jsval \<Rightarrow> bool" where
  "truthy v = (case v of Undefined \<Rightarrow> False | Number x \<Rightarrow> x \<noteq> 0 | Fixed d m \<Rightarrow> True)"

text \<open>\<open>x || d\<close> on a possibly missing integer: \<open>undefined\<close> and \<open>0\<close> are falsy.\<close>

definition or_int :: "int option \<Rightarrow> int \<Rightarrow> int" where
  "or_int x d = (case x of None \<Rightarrow> d | Some v \<Rightarrow> if v = 0 then d else v)"

text \<open>\<open>x || d\<close> on a possibly missing string: \<open>undefined\<close> and the empty string are falsy.\<close>

definition or_str :: "string option \<Rightarrow> string \<Rightarrow> string" where
  "or_str x d = (case x of None \<Rightarrow> d | Some t \<Rightarrow> if t = [] then d else t)"

text \<open>\<open>x || []\<close> on a possibly missing array (every array is truthy).\<close>

definition or_list :: "'a list option \<Rightarrow> 'a list" where
  "or_list x = (case x of None \<Rightarrow> [] | Some xs \<Rightarrow> xs)"

text \<open>\<open>parseFloat\<close>; \<open>None\<close> is NaN.\<close>

definition parseFloat :: "jsval \<Rightarrow> rat option" where
  "parseFloat v = (case v of Undefined \<Rightarrow> None | Number x \<Rightarrow> Some x
                   | Fixed d m \<Rightarrow> Some (of_int m / 10 ^ d))"

text \<open>\<open>parseFloat(v || d)\<close> for a numeric default \<open>d\<close>: always a number.\<close>

definition parseFloatOr :: "jsval \<Rightarrow> rat \<Rightarrow> rat" where
  "parseFloatOr v d = (if truthy v then (case parseFloat v of None \<Rightarrow> d | Some x \<Rightarrow> x) else d)"

text \<open>
  \<open>x.toFixed(d)\<close>: the nearest integer to \<open>x * 10^d\<close>, the larger one on a tie, the sign
  of a negative \<open>x\<close> being put in front of the digits of \<open>-x\<close>.
\<close>

definition toFixed :: "nat \<Rightarrow> rat \<Rightarrow> jsval" where
  "toFixed d x = Fixed d (if x < 0 then - \<lfloor>- x * 10 ^ d + 1 / 2\<rfloor> else \<lfloor>x * 10 ^ d + 1 / 2\<rfloor>)"

text \<open>\<open>Math.round\<close> rounds a tie towards plus infinity.\<close>

definition math_round :: "rat \<Rightarrow> int" where
  "math_round x = \<lfloor>x + 1 / 2\<rfloor>"

text \<open>
  Double precision. \<open>pow2 e\<close> is the power of two with the integer exponent \<open>e\<close>, and
  \<open>ilog2 x\<close> is the exponent of a positive \<open>x\<close>: the \<open>e\<close> with
  \<open>pow2 e \<le> x < pow2 (e + 1)\<close>. A double with the exponent \<open>e\<close> is a multiple of
  \<open>pow2 (e - 52)\<close>, and of \<open>pow2 (- 1074)\<close> below the normal range. \<open>round_double\<close>
  rounds a rational to the nearest double, a tie to the one with the even significand;
  the overflow to infinity above the largest double is not modelled. The arithmetic
  operators of JavaScript compute the exact result of two doubles and round it.
\<close>

definition pow2 :: "int \<Rightarrow> rat" where
  "pow2 e = (if 0 \<le> e then 2 ^ nat e else 1 / 2 ^ nat (- e))"

function ilog2 :: "rat \<Rightarrow> int" where
  "ilog2 x = (if x \<le> 0 then 0
              else if x < 1 then ilog2 (x * 2) - 1
              else if 2 \<le> x then ilog2 (x / 2) + 1
              else 0)"
  by pat_completeness auto
termination
proof (relation "measure (\<lambda>x. if x < 1 then nat \<lceil>1 / x\<rceil> else nat \<lfloor>x\<rfloor>)")
  show "wf (measure (\<lambda>x::rat. if x < 1 then nat \<lceil>1 / x\<rceil> else nat \<lfloor>x\<rfloor>))" by simp
next
  fix x :: rat
  assume a: "\<not> x \<le> 0" "x < 1"
  have pos: "0 < x" using a by simp
  have big: "1 < 1 / x" using a pos by simp
  show "(x * 2, x) \<in> measure (\<lambda>x. if x < 1 then nat \<lceil>1 / x\<rceil> else nat \<lfloor>x\<rfloor>)"
  proof (cases "x * 2 < 1")
    case True
    then have "2 < 1 / x" using pos by (simp add: field_simps)
    then have c: "3 \<le> \<lceil>1 / x\<rceil>" by linarith
    have "1 / (x * 2) = (1 / x) / 2" by simp
    then have "\<lceil>1 / (x * 2)\<rceil> = \<lceil>(1 / x) / 2\<rceil>" by simp
    also have "\<dots> \<le> \<lceil>(of_int \<lceil>1 / x\<rceil> :: rat) / 2\<rceil>"
      by (intro ceiling_mono divide_right_mono) simp_all
    also have "\<dots> < \<lceil>1 / x\<rceil>" using c by linarith
    finally have "\<lceil>1 / (x * 2)\<rceil> < \<lceil>1 / x\<rceil>" .
    moreover have "0 < \<lceil>1 / x\<rceil>" using c by linarith
    ultimately show ?thesis using True a by simp
  next
    case False
    then have "x * 2 < 2" using a by simp
    then have f: "\<lfloor>x * 2\<rfloor> \<le> 1" by linarith
    have "2 \<le> \<lceil>1 / x\<rceil>" using big by linarith
    with f have "\<lfloor>x * 2\<rfloor> < \<lceil>1 / x\<rceil>" by linarith
    moreover have "0 < \<lceil>1 / x\<rceil>" using big by linarith
    ultimately show ?thesis using False a by simp
  qed
next
  fix x :: rat
  assume a: "\<not> x \<le> 0" "\<not> x < 1" "2 \<le> x"
  have "\<lfloor>x / 2\<rfloor> < \<lfloor>x\<rfloor>" using a by linarith
  moreover have "0 < \<lfloor>x\<rfloor>" using a by linarith
  ultimately show "(x / 2, x) \<in> measure (\<lambda>x. if x < 1 then nat \<lceil>1 / x\<rceil> else nat \<lfloor>x\<rfloor>)"
    using a by simp
qed

declare ilog2.simps [simp del]

definition round_half_even :: "rat \<Rightarrow> int" where
  "round_half_even y =
     (let f = \<lfloor>y\<rfloor>; d = y - of_int f
      in if d < 1 / 2 then f else if 1 / 2 < d then f + 1 else if even f then f else f + 1)"

definition round_double :: "rat \<Rightarrow> rat" where
  "round_double x =
     (if x = 0 then 0
      else let q = pow2 (max (ilog2 \<bar>x\<bar>) (- 1022) - 52)
           in sgn x * of_int (round_half_even (\<bar>x\<bar> / q)) * q)"

definition fadd :: "rat \<Rightarrow> rat \<Rightarrow> rat" where
  "fadd a b = round_double (a + b)"

definition fmul :: "rat \<Rightarrow> rat \<Rightarrow> rat" where
  "fmul a b = round_double (a * b)"

definition fdiv :: "rat \<Rightarrow> rat \<Rightarrow> rat" where
  "fdiv a b = round_double (a / b)"

text \<open>\<open>new Set(xs)\<close> read back as an array: the first occurrences, in order.\<close>

fun uniq :: "'a list \<Rightarrow> 'a list" where
  "uniq [] = []"
| "uniq (x # xs) = x # uniq (filter (\<lambda>y. y \<noteq> x) xs)"

text \<open>\<open>String(n)\<close> for a natural number and for an integer.\<close>

fun show_nat :: "nat \<Rightarrow> string" where
  "show_nat n = (if n < 10 then [''0123456789'' ! n]
                 else show_nat (n div 10) @ [''0123456789'' ! (n mod 10)])"

definition show_int :: "int \<Rightarrow> string" where
  "show_int i = (if i < 0 then CHR ''-'' # show_nat (nat (- i)) else show_nat (nat i))"

definition padStart :: "nat \<Rightarrow> char \<Rightarrow> string \<Rightarrow> string" where
  "padStart n c s = replicate (n - length s) c @ s"

fun join :: "string \<Rightarrow> string list \<Rightarrow> string" where
  "join sep [] = []"
| "join sep [x] = x"
| "join sep (x # y # ys) = x @ sep @ join sep (y # ys)"

text \<open>A template literal prints a missing value as \<open>undefined\<close>.\<close>

definition str_opt :: "string option \<Rightarrow> string" where
  "str_opt s = (case s of None \<Rightarrow> ''undefined'' | Some t \<Rightarrow> t)"

definition int_opt :: "int option \<Rightarrow> string" where
  "int_opt i = (case i of None \<Rightarrow> ''undefined'' | Some v \<Rightarrow> show_int v)"

section \<open>Segment catalog\<close>

definition segments :: "segment_def list" where
  "segments =
    [\<lparr>seg_id = 0, name = ''Micro-Influencers'', color = ''#8b5cf6'', minFollowers = 10000, minEngagement = 5\<rparr>,
     \<lparr>seg_id = 1, name = ''Highly Engaged'', color = ''#3b82f6'', minFollowers = 5000, minEngagement = 4\<rparr>,
     \<lparr>seg_id = 2, name = ''Engaged Creators'', color = ''#3b82f6'', minFollowers = 5000, minEngagement = 4\<rparr>,
     \<lparr>seg_id = 3, name = ''Growing Accounts'', color = ''#10b981'', minFollowers = 2000, minEngagement = 3\<rparr>,
     \<lparr>seg_id = 4, name = ''Active Community'', color = ''#f59e0b'', minFollowers = 500, minEngagement = 2\<rparr>,
     \<lparr>seg_id = 5, name = ''Content Creators'', color = ''#ec4899'', minFollowers = 1000, minEngagement = 3\<rparr>,
     \<lparr>seg_id = 6, name = ''Casual Users'', color = ''#6b7280'', minFollowers = 0, minEngagement = 0\<rparr>,
     \<lparr>seg_id = 7, name = ''Newbies'', color = ''#6b7280'', minFollowers = 0, minEngagement = 0\<rparr>]"

definition interests_list :: "string list" where
  "interests_list = [''technology'', ''fashion'', ''travel'', ''food'', ''fitness'', ''gaming'',
                     ''music'', ''art'', ''sports'', ''photography'', ''business'', ''education'']"

definition cities :: "string list" where
  "cities = [''New York'', ''Los Angeles'', ''London'', ''Mumbai'', ''Tokyo'', ''Paris'', ''Berlin'',
             ''Sydney'', ''Toronto'', ''Dubai'', ''Singapore'']"

definition genders :: "string list" where
  "genders = [''Male'', ''Female'', ''Non-binary'']"

section \<open>Local analytics approximator\<close>

subsection \<open>performClustering\<close>

text \<open>
  The loop condition \<open>user.followers >= segments[i].minFollowers &&
  parseFloat(user.engagementRate) >= segments[i].minEngagement\<close>. A comparison with
  \<open>undefined\<close> or NaN is false.
\<close>

definition meets :: "user \<Rightarrow> segment_def \<Rightarrow> bool" where
  "meets u s =
     ((case followers u of None \<Rightarrow> False | Some f \<Rightarrow> minFollowers s \<le> f) \<and>
      (case parseFloat (engagementRate u) of None \<Rightarrow> False | Some e \<Rightarrow> minEngagement s \<le> e))"

text \<open>The guard \<open>user.segment && user.segmentColor\<close>.\<close>

definition hasSegment :: "user \<Rightarrow> bool" where
  "hasSegment u = (truthy_str (segment u) \<and> truthy_str (segmentColor u))"

text \<open>
  The body of the \<open>map\<close> callback. The loop runs over the indices
  \<open>0 .. segments.length - 2\<close> and stops at the first hit, which is \<open>find\<close> on the table
  without its last entry.
\<close>

definition clusterUser :: "user \<Rightarrow> user" where
  "clusterUser u =
     (if hasSegment u then u
      else
        let dflt = (case find (\<lambda>s. name s = ''Casual Users'') segments of
                      Some s \<Rightarrow> s | None \<Rightarrow> last segments);
            seg = (case find (meets u) (butlast segments) of Some s \<Rightarrow> s | None \<Rightarrow> dflt)
        in u\<lparr>segment := Some (name seg), segmentColor := Some (color seg),
             segmentId := Some (seg_id seg)\<rparr>)"

definition performClustering :: "user list \<Rightarrow> user list" where
  "performClustering users = map clusterUser users"

subsection \<open>calculateSimilarity\<close>

definition calculateSimilarity :: "user \<Rightarrow> user \<Rightarrow> rat" where
  "calculateSimilarity user1 user2 =
     (let interests1 = uniq (or_list (interests user1));
          interests2 = uniq (or_list (interests user2));
          intersection = uniq (filter (\<lambda>x. x \<in> set interests2) interests1);
          union = uniq (interests1 @ interests2);
          interestSim = (if length union > 0
                         then of_nat (length intersection) / of_nat (length union) else 0);
          ageDiff = \<bar>of_int (or_int (age user1) 25) - of_int (or_int (age user2) 25)\<bar>;
          ageSim = max 0 (1 - ageDiff / 50);
          engagementDiff = \<bar>parseFloatOr (engagementRate user1) 5
                            - parseFloatOr (engagementRate user2) 5\<bar>;
          engagementSim = max 0 (1 - engagementDiff / 20);
          cityBonus = (if city user1 = city user2 then 1 / 10 else 0)
      in min 1 (45 / 100 * interestSim + 25 / 100 * ageSim + 2 / 10 * engagementSim + cityBonus))"

subsection \<open>generateReason and getRecommendations\<close>

definition generateReason :: "user \<Rightarrow> user \<Rightarrow> string" where
  "generateReason user1 user2 =
     (let shared = filter (\<lambda>i. i \<in> set (or_list (interests user2))) (or_list (interests user1))
      in if length shared \<ge> 3
           then ''Shares '' @ show_nat (length shared) @ '' interests: '' @ join '', '' (take 3 shared)
         else if city user1 = city user2
           then ''Also in '' @ str_opt (city user2)
         else if segment user1 = segment user2
           then ''Similar profile ('' @ str_opt (segment user1) @ '')''
         else if \<bar>or_int (age user1) 25 - or_int (age user2) 25\<bar> \<le> 5
           then ''Similar age group ('' @ int_opt (age user2) @ '' years old)''
         else if length shared > 0
           then ''Shares interest: '' @ hd shared
         else ''Similar engagement patterns'')"

text \<open>The callback of \<open>map\<close> in \<open>getRecommendations\<close>.\<close>

definition recommend :: "user \<Rightarrow> user \<Rightarrow> recommendation" where
  "recommend targetUser u =
     user.extend u
       (recommendation.fields
          (calculateSimilarity targetUser u)
          (filter (\<lambda>i. i \<in> set (or_list (interests u))) (or_list (interests targetUser)))
          (generateReason targetUser u))"

text \<open>
  \<open>Array.prototype.sort\<close> is stable, and the comparator \<open>b.similarity - a.similarity\<close>
  orders by descending similarity: the result is the stable sort by the negated
  similarity. The count \<open>n\<close> is a natural number, \<open>None\<close> when the caller leaves it out.
\<close>

definition getRecommendations :: "user \<Rightarrow> user list \<Rightarrow> nat option \<Rightarrow> recommendation list" where
  "getRecommendations targetUser allUsers n =
     take (case n of None \<Rightarrow> 10 | Some k \<Rightarrow> k)
       (sort_key (\<lambda>r. - similarity r)
          (map (recommend targetUser)
             (filter (\<lambda>u. userId u \<noteq> userId targetUser) allUsers)))"

subsection \<open>getSegmentStats\<close>

text \<open>
  The result object is represented by its entries, in the order in which the keys
  were first assigned; assigning to a key that is present overwrites its value. The key
  of a missing segment name is the string \<open>undefined\<close>. Two features of a JavaScript
  object are outside this representation: an assignment to the key \<open>__proto__\<close>
  sets the prototype and stores no entry, and the keys that are array indices are
  enumerated before the other keys. The statements proved about \<open>getSegmentStats\<close>
  exclude the key \<open>__proto__\<close>, and they are about sums over the entries, which do
  not depend on the order.
\<close>

definition segmentStatsOf :: "user list \<Rightarrow> string option \<Rightarrow> segment_stats" where
  "segmentStatsOf users segName =
     (let segUsers = filter (\<lambda>u. segment u = segName) users;
          count = length segUsers;
          segColor = (case find (\<lambda>s. Some (name s) = segName) segments of
                        Some s \<Rightarrow> color s | None \<Rightarrow> ''#6b7280'')
      in \<lparr>st_name = segName, st_color = segColor, st_count = count,
          percentage = toFixed 1 (of_nat count / of_nat (length users) * 100),
          avgEngagement =
            toFixed 2 (foldl (\<lambda>sum u. sum + parseFloatOr (engagementRate u) 0) 0 segUsers
                       / of_nat count),
          avgFollowers =
            math_round (of_int (foldl (\<lambda>sum u. sum + or_int (followers u) 0) 0 segUsers)
                        / of_nat count),
          avgPosts =
            Some (math_round (of_int (foldl (\<lambda>sum u. sum + or_int (posts u) 0) 0 segUsers)
                              / of_nat count)),
          avgInfluence = Undefined\<rparr>)"

definition getSegmentStats :: "user list \<Rightarrow> (string \<times> segment_stats) list" where
  "getSegmentStats users =
     fold (\<lambda>segName stats.
             if length (filter (\<lambda>u. segment u = segName) users) > 0
             then AList.update (str_opt segName) (segmentStatsOf users segName) stats
             else stats)
          (uniq (map segment users)) []"

subsection \<open>getCityDistribution, getEngagementByHour, getWeeklyTrend\<close>

definition getCityDistribution :: "user list \<Rightarrow> (string \<times> nat) list" where
  "getCityDistribution users =
     (let distribution =
            fold (\<lambda>u dist.
                    let c = or_str (city u) ''Unknown''
                    in AList.update c ((case map_of dist c of None \<Rightarrow> 0 | Some n \<Rightarrow> n) + 1) dist)
                 users []
      in take 8 (sort_key (\<lambda>e. - int (snd e)) distribution))"

section \<open>Random source\<close>

text \<open>
  \<open>Math.random()\<close> returns a number that is at least 0 and less than 1. The random
  source is the sequence of the values that the successive calls return; the functions
  that draw from it take the index of their first draw and return the index after their
  last one.
\<close>

typedef unit_interval = "{r :: rat. 0 \<le> r \<and> r < 1}"
  by (rule exI [of _ 0]) simp

type_synonym rng = "nat \<Rightarrow> unit_interval"

definition random :: "rng \<Rightarrow> nat \<Rightarrow> rat" where
  "random rnd k = Rep_unit_interval (rnd k)"

text \<open>\<open>xs[Math.floor(r * xs.length)]\<close>, \<open>undefined\<close> out of range.\<close>

definition pick :: "'a list \<Rightarrow> rat \<Rightarrow> 'a option" where
  "pick xs r = (let i = \<lfloor>r * of_nat (length xs)\<rfloor>
                in if 0 \<le> i \<and> i < int (length xs) then Some (xs ! nat i) else None)"

definition baseEngagement :: "nat \<Rightarrow> int" where
  "baseEngagement i =
     (let b = 100;
          b = (if 9 \<le> i \<and> i \<le> 11 then 250 else b);
          b = (if 12 \<le> i \<and> i \<le> 14 then 200 else b);
          b = (if 18 \<le> i \<and> i \<le> 22 then 350 else b);
          b = (if 0 \<le> i \<and> i \<le> 6 then 50 else b)
      in b)"

definition getEngagementByHour :: "rng \<Rightarrow> nat \<Rightarrow> hour_point list \<times> nat" where
  "getEngagementByHour rnd k =
     (map (\<lambda>i. \<lparr>hour = i, engagement = baseEngagement i + \<lfloor>random rnd (k + i) * 50\<rfloor>\<rparr>) [0..<24],
      k + 24)"

definition getWeeklyTrend :: "rng \<Rightarrow> nat \<Rightarrow> day_point list \<times> nat" where
  "getWeeklyTrend rnd k =
     (let days = [''Mon'', ''Tue'', ''Wed'', ''Thu'', ''Fri'', ''Sat'', ''Sun'']
      in (map (\<lambda>(j, d). \<lparr>day = d,
                          day_engagement = \<lfloor>random rnd (k + 2 * j) * 30\<rfloor> + 70,
                          day_followers = \<lfloor>random rnd (k + 2 * j + 1) * 500\<rfloor> + 100\<rparr>)
              (enumerate 0 days),
          k + 2 * length days))"

section \<open>Local data synthesizer\<close>

text \<open>
  The inner loop of \<open>generateUserData\<close>: \<open>j\<close> draws, each pushed unless the tag is
  already there. The index is in range because the draw is below 1.
\<close>

fun pickInterests :: "rng \<Rightarrow> nat \<Rightarrow> nat \<Rightarrow> string list \<Rightarrow> string list" where
  "pickInterests rnd k 0 userInterests = userInterests"
| "pickInterests rnd k (Suc j) userInterests =
     (let interest = interests_list ! nat \<lfloor>random rnd k * of_nat (length interests_list)\<rfloor>
      in pickInterests rnd (Suc k) j
           (if interest \<in> set userInterests then userInterests else userInterests @ [interest]))"

text \<open>
  One iteration of the outer loop, for the index \<open>i\<close>, with its draws in the order of
  the source: the number of interests, the interests, followers, following, posts, the
  factor of likes, then age, gender, city and influence score as the object literal is
  evaluated. The likes and the fields derived from them are computed in doubles: a
  decimal literal is the double nearest to it, and \<open>fadd\<close>, \<open>fmul\<close> and \<open>fdiv\<close>
  are the operators \<open>+\<close>, \<open>*\<close> and \<open>/\<close>; \<open>Math.floor\<close> and \<open>toFixed\<close> then
  read the exact value of the double. The followers are an integer below 50100, which
  is a double.
\<close>

definition generateUser :: "rng \<Rightarrow> nat \<Rightarrow> nat \<Rightarrow> user \<times> nat" where
  "generateUser rnd k i =
     (let numInterests = nat (\<lfloor>random rnd k * 4\<rfloor> + 2);
          userInterests = pickInterests rnd (k + 1) numInterests [];
          k1 = k + 1 + numInterests;
          followers = \<lfloor>random rnd k1 * 50000\<rfloor> + 100;
          following = \<lfloor>random rnd (k1 + 1) * 2000\<rfloor> + 50;
          posts = \<lfloor>random rnd (k1 + 2) * 500\<rfloor> + 10;
          likes = fmul (of_int followers)
                    (fadd (round_double (5 / 100))
                       (fmul (random rnd (k1 + 3)) (round_double (1 / 10))))
      in (\<lparr>userId = ''U'' @ padStart 4 CHR ''0'' (show_nat (i + 1)),
           username = ''user_'' @ show_nat (i + 1),
           age = Some (\<lfloor>random rnd (k1 + 4) * 40\<rfloor> + 18),
           gender = pick genders (random rnd (k1 + 5)),
           city = pick cities (random rnd (k1 + 6)),
           interests = Some userInterests,
           followers = Some followers,
           following = Some following,
           posts = Some posts,
           likes = Some \<lfloor>likes\<rfloor>,
           comments = Some \<lfloor>fmul likes (round_double (15 / 100))\<rfloor>,
           shares = Some \<lfloor>fmul likes (round_double (5 / 100))\<rfloor>,
           engagementRate =
             toFixed 2
               (fmul (fdiv (fadd (fadd likes (fmul likes (round_double (15 / 100))))
                                 (fmul likes (round_double (5 / 100))))
                           (of_int followers))
                     100),
           influenceScore = toFixed 3 (random rnd (k1 + 7) * (1 / 2) + 3 / 10),
           segment = None, segmentColor = None, segmentId = None\<rparr>,
          k1 + 8))"

fun generateUsers :: "rng \<Rightarrow> nat \<Rightarrow> nat \<Rightarrow> nat \<Rightarrow> user list \<times> nat" where
  "generateUsers rnd k i 0 = ([], k)"
| "generateUsers rnd k i (Suc c) =
     (let (u, k') = generateUser rnd k i;
          (us, k'') = generateUsers rnd k' (Suc i) c
      in (u # us, k''))"

text \<open>
  \<open>kaggleData\<close> is the module variable that \<open>loadKaggleData\<close> sets; \<open>None\<close> is its
  initial \<open>null\<close>. \<open>numUsers\<close> is a count.
\<close>

definition generateUserData :: "user list option \<Rightarrow> rng \<Rightarrow> nat \<Rightarrow> nat \<Rightarrow> user list \<times> nat" where
  "generateUserData kaggleData rnd k numUsers =
     (case kaggleData of
        None \<Rightarrow> generateUsers rnd k 0 numUsers
      | Some ks \<Rightarrow> if length ks > 0 then (take numUsers ks, k)
                   else generateUsers rnd k 0 numUsers)"

section \<open>Remote data adapter\<close>

text \<open>
  \<open>getSegmentColor\<close> of the application module. A name that is not a key of the table,
  and the missing name, get the fallback colour.
\<close>

definition getSegmentColor :: "string option \<Rightarrow> string" where
  "getSegmentColor segmentName =
     (let colors = [(''Micro-Influencers'', ''#f87171''),
                    (''Engaged Creators'', ''#8b5cf6''),
                    (''Rising Stars'', ''#06b6d4''),
                    (''Active Community'', ''#10b981''),
                    (''Casual Browsers'', ''#f59e0b''),
                    (''Highly Engaged'', ''#3b82f6''),
                    (''Growing Accounts'', ''#10b981'')]
      in or_str (case segmentName of None \<Rightarrow> None | Some n \<Rightarrow> map_of colors n) ''#6b7280'')"

text \<open>
  The two segment fields that \<open>fetchUsersFromAPI\<close> attaches to a user of the backend:
  \<open>segment: user.segment_name || 'Unknown'\<close> and
  \<open>segmentColor: getSegmentColor(user.segment_name)\<close>.
\<close>

definition remoteSegment :: "string option \<Rightarrow> string \<times> string" where
  "remoteSegment segment_name = (or_str segment_name ''Unknown'', getSegmentColor segment_name)"

text \<open>
  The backend as the orchestrator sees it: the outcome of each request, after the
  adapter's mapping, \<open>Inl\<close> when the adapter function throws (a rejected request, a
  status that is not ok, a failing mapping). \<open>health\<close> is the request of the probe:
  \<open>Inr ok\<close> is a response with that \<open>response.ok\<close>.
\<close>

datatype fetch_error = FetchFailed

record backend =
  health :: "fetch_error + bool"
  fetchUsersFromAPI :: "fetch_error + user list"
  fetchSegmentStatsFromAPI :: "fetch_error + (string \<times> segment_stats) list"
  fetchCitiesFromAPI :: "fetch_error + (string \<times> nat) list"
  fetchHourlyEngagementFromAPI :: "fetch_error + hour_point list"
  fetchWeeklyTrendFromAPI :: "fetch_error + day_point list"
  fetchRecommendationsFromAPI :: "string \<Rightarrow> fetch_error + recommendation list"

definition checkAPIHealth :: "backend \<Rightarrow> bool" where
  "checkAPIHealth b = (case health b of Inl e \<Rightarrow> False | Inr ok \<Rightarrow> ok)"

section \<open>Data source orchestrator\<close>

datatype load_status = NoStatus | ConnectedBackend | UsingLocalGeneration | UsingLocalFallback

record app_state =
  loading :: bool
  loadingProgress :: nat
  loadingStatus :: load_status
  users :: "user list"
  selectedUser :: "user option"
  recommendations :: "recommendation list"
  segmentStats :: "(string \<times> segment_stats) list"
  cityDistribution :: "(string \<times> nat) list"
  engagementByHour :: "hour_point list"
  weeklyTrend :: "day_point list"
  usingAPI :: bool

text \<open>\<open>clusteredUsers[0]\<close>, \<open>undefined\<close> for the empty array.\<close>

definition first :: "'a list \<Rightarrow> 'a option" where
  "first xs = (case xs of [] \<Rightarrow> None | x # rest \<Rightarrow> Some x)"

text \<open>
  \<open>getLocalRecommendations(clusteredUsers[0], clusteredUsers)\<close>: with an empty array
  the callback of \<open>filter\<close> never reads the missing target.
\<close>

definition localRecommendations :: "user list \<Rightarrow> recommendation list" where
  "localRecommendations clusteredUsers =
     (case clusteredUsers of [] \<Rightarrow> [] | u # rest \<Rightarrow> getRecommendations u clusteredUsers None)"

text \<open>The five requests of the \<open>apiAvailable\<close> branch, in order; the first failure throws.\<close>

definition remoteSequence ::
  "backend \<Rightarrow> fetch_error +
     (user list \<times> (string \<times> segment_stats) list \<times> (string \<times> nat) list
      \<times> hour_point list \<times> day_point list)" where
  "remoteSequence b =
     (case fetchUsersFromAPI b of Inl e \<Rightarrow> Inl e | Inr clusteredUsers \<Rightarrow>
       (case fetchSegmentStatsFromAPI b of Inl e \<Rightarrow> Inl e | Inr stats \<Rightarrow>
         (case fetchCitiesFromAPI b of Inl e \<Rightarrow> Inl e | Inr cs \<Rightarrow>
           (case fetchHourlyEngagementFromAPI b of Inl e \<Rightarrow> Inl e | Inr hourly \<Rightarrow>
             (case fetchWeeklyTrendFromAPI b of Inl e \<Rightarrow> Inl e | Inr weekly \<Rightarrow>
                Inr (clusteredUsers, stats, cs, hourly, weekly))))))"

text \<open>
  \<open>initializeData\<close>, from the state \<open>s\<close> in which it is called to the state after its
  last setter and its timer have run. Of the writes to \<open>loadingProgress\<close> and
  \<open>loadingStatus\<close> only the last one of each path is kept; every other setter is
  written where the source calls it. In the \<open>apiAvailable\<close> branch \<open>setUsingAPI(true)\<close>
  runs before the first request, and the \<open>catch\<close> block has no \<open>setUsingAPI\<close>.
\<close>

definition initializeData :: "user list option \<Rightarrow> backend \<Rightarrow> rng \<Rightarrow> app_state \<Rightarrow> app_state" where
  "initializeData kaggleData b rnd s =
     (let s1 = s\<lparr>loading := True, loadingProgress := 5\<rparr>;
          apiAvailable = checkAPIHealth b
      in if apiAvailable then
           (let s2 = s1\<lparr>loadingStatus := ConnectedBackend, usingAPI := True\<rparr>
            in case remoteSequence b of
                 Inr (clusteredUsers, stats, cs, hourly, weekly) \<Rightarrow>
                   s2\<lparr>users := clusteredUsers, selectedUser := first clusteredUsers,
                      segmentStats := stats, cityDistribution := cs,
                      engagementByHour := hourly, weeklyTrend := weekly,
                      recommendations :=
                        (case first clusteredUsers of
                           Some u \<Rightarrow>
                             (case fetchRecommendationsFromAPI b (userId u) of
                                Inr recs \<Rightarrow> recs
                              | Inl e \<Rightarrow> localRecommendations clusteredUsers)
                         | None \<Rightarrow> localRecommendations clusteredUsers),
                      loadingProgress := 100, loading := False\<rparr>
               | Inl error \<Rightarrow>
                   (let (rawUsers, k1) = generateUserData kaggleData rnd 0 500;
                        clusteredUsers = performClustering rawUsers;
                        (hourly, k2) = getEngagementByHour rnd k1;
                        (weekly, k3) = getWeeklyTrend rnd k2
                    in s2\<lparr>loadingStatus := UsingLocalFallback,
                          users := clusteredUsers, selectedUser := first clusteredUsers,
                          segmentStats := getSegmentStats clusteredUsers,
                          cityDistribution := getCityDistribution clusteredUsers,
                          engagementByHour := hourly, weeklyTrend := weekly,
                          recommendations := localRecommendations clusteredUsers,
                          loadingProgress := 100, loading := False\<rparr>))
         else
           (let s2 = s1\<lparr>loadingStatus := UsingLocalGeneration, usingAPI := False\<rparr>;
                (rawUsers, k1) = generateUserData kaggleData rnd 0 1000;
                clusteredUsers = performClustering rawUsers;
                stats = getSegmentStats clusteredUsers;
                cs = getCityDistribution clusteredUsers;
                (hourly, k2) = getEngagementByHour rnd k1;
                (weekly, k3) = getWeeklyTrend rnd k2
            in s2\<lparr>users := clusteredUsers, selectedUser := first clusteredUsers,
                  segmentStats := stats, cityDistribution := cs,
                  engagementByHour := hourly, weeklyTrend := weekly,
                  recommendations := localRecommendations clusteredUsers,
                  loadingProgress := 100, loading := False\<rparr>))"

section \<open>Properties as the specification words them\<close>

text \<open>
  The derivation of the engagement rate in the words of the specification: likes plus
  comments plus shares, over followers, times 100, to two decimal places, and 0 when
  there are no followers. It is compared below with the field that \<open>generateUser\<close>
  stores.
\<close>

definition spec_engagementRate :: "user \<Rightarrow> jsval" where
  "spec_engagementRate u =
     (let f = or_int (followers u) 0
      in if f = 0 then toFixed 2 0
         else toFixed 2 (of_int (or_int (likes u) 0 + or_int (comments u) 0 + or_int (shares u) 0)
                         / of_int f * 100))"

text \<open>A present integer field with a value in the half-open interval from \<open>lo\<close> to \<open>hi\<close>.\<close>

definition in_range :: "int option \<Rightarrow> int \<Rightarrow> int \<Rightarrow> bool" where
  "in_range x lo hi = (case x of None \<Rightarrow> False | Some v \<Rightarrow> lo \<le> v \<and> v < hi)"

text \<open>The sum of the counts and the sum of the percentages of a statistics object.\<close>

definition countSum :: "(string \<times> segment_stats) list \<Rightarrow> nat" where
  "countSum stats = sum_list (map (\<lambda>e. st_count (snd e)) stats)"

definition percentageSum :: "(string \<times> segment_stats) list \<Rightarrow> rat" where
  "percentageSum stats = sum_list (map (\<lambda>e. parseFloatOr (percentage (snd e)) 0) stats)"

text \<open>
  A state that holds a complete dataset computed locally from \<open>n\<close> requested users: the
  clustered output of the synthesizer, its first user selected, and every aggregate and
  the recommendations computed from that population by the local functions.
\<close>

definition localDataset :: "user list option \<Rightarrow> rng \<Rightarrow> nat \<Rightarrow> app_state \<Rightarrow> bool" where
  "localDataset kaggleData rnd n s =
     (users s = performClustering (fst (generateUserData kaggleData rnd 0 n)) \<and>
      users s \<noteq> [] \<and>
      selectedUser s = Some (hd (users s)) \<and>
      segmentStats s = getSegmentStats (users s) \<and> segmentStats s \<noteq> [] \<and>
      cityDistribution s = getCityDistribution (users s) \<and> cityDistribution s \<noteq> [] \<and>
      engagementByHour s =
        fst (getEngagementByHour rnd (snd (generateUserData kaggleData rnd 0 n))) \<and>
      length (engagementByHour s) = 24 \<and>
      weeklyTrend s =
        fst (getWeeklyTrend rnd
               (snd (getEngagementByHour rnd (snd (generateUserData kaggleData rnd 0 n))))) \<and>
      length (weeklyTrend s) = 7 \<and>
      recommendations s = getRecommendations (hd (users s)) (users s) None \<and>
      \<not> loading s)"

section \<open>Concrete inputs\<close>

text \<open>
  The three users of the example scenario of the specification, a fourth one that meets
  the thresholds shared by the second and third catalog entries, and a user that arrives
  with a segment and a colour.
\<close>

definition example_user :: "string \<Rightarrow> int \<Rightarrow> jsval \<Rightarrow> string list \<Rightarrow> user" where
  "example_user uid f e tags =
     \<lparr>userId = uid, username = uid, age = Some 30, gender = None, city = Some ''Paris'',
      interests = Some tags, followers = Some f, following = None, posts = None,
      likes = None, comments = None, shares = None, engagementRate = e,
      influenceScore = Undefined, segment = None, segmentColor = None, segmentId = None\<rparr>"

definition user_1 :: user where
  "user_1 = example_user ''U1'' 20000 (Number 6) [''tech'', ''art'']"

definition user_2 :: user where
  "user_2 = example_user ''U2'' 20000 (Number 6) [''tech'', ''fashion'']"

definition user_3 :: user where
  "user_3 = example_user ''U3'' 100 (Number 1) [''food'']"

definition user_4 :: user where
  "user_4 = example_user ''U4'' 6000 (Fixed 2 450) [''music'']"

definition sample_user :: "string \<Rightarrow> string \<Rightarrow> user" where
  "sample_user uid seg =
     \<lparr>userId = uid, username = uid, age = None, gender = None, city = None, interests = None,
      followers = Some 10, following = None, posts = None, likes = None, comments = None,
      shares = None, engagementRate = Undefined, influenceScore = Undefined,
      segment = Some seg, segmentColor = Some ''#123456'', segmentId = None\<rparr>"

definition six_users :: "user list" where
  "six_users = [sample_user ''U1'' ''A'', sample_user ''U2'' ''B'', sample_user ''U3'' ''C'',
                sample_user ''U4'' ''D'', sample_user ''U5'' ''E'', sample_user ''U6'' ''F'']"

definition kept_user :: user where
  "kept_user = sample_user ''K1'' ''Engaged Creators''"

definition remote_user :: user where
  "remote_user = sample_user ''R1'' ''Rising Stars''"

text \<open>The random source whose every draw is 0, and the one whose every draw is 2047/2048.\<close>

definition zero_rng :: rng where
  "zero_rng k = Abs_unit_interval 0"

definition high_rng :: rng where
  "high_rng k = Abs_unit_interval (2047 / 2048)"

text \<open>
  A random source that draws 485/262144 for the followers of the first user, which
  gives 192 followers, and the double 0.6979166666666665 for the likes, and 0 otherwise.
\<close>

definition example_rng :: rng where
  "example_rng k =
     Abs_unit_interval
       (if k = 3 then 485 / 262144
        else if k = 6 then 1571568619967829 / 2251799813685248
        else 0)"

text \<open>
  Three backends: one whose probe is rejected, one that answers the probe and fails the
  request for the users, one that answers everything but the recommendations.
\<close>

definition no_recommendations :: "string \<Rightarrow> fetch_error + recommendation list" where
  "no_recommendations uid = Inl FetchFailed"

definition backend_down :: backend where
  "backend_down =
     \<lparr>health = Inl FetchFailed, fetchUsersFromAPI = Inl FetchFailed,
      fetchSegmentStatsFromAPI = Inl FetchFailed, fetchCitiesFromAPI = Inl FetchFailed,
      fetchHourlyEngagementFromAPI = Inl FetchFailed, fetchWeeklyTrendFromAPI = Inl FetchFailed,
      fetchRecommendationsFromAPI = no_recommendations\<rparr>"

definition backend_users_fail :: backend where
  "backend_users_fail =
     \<lparr>health = Inr True, fetchUsersFromAPI = Inl FetchFailed,
      fetchSegmentStatsFromAPI = Inr [], fetchCitiesFromAPI = Inr [],
      fetchHourlyEngagementFromAPI = Inr [], fetchWeeklyTrendFromAPI = Inr [],
      fetchRecommendationsFromAPI = no_recommendations\<rparr>"

definition backend_recs_fail :: backend where
  "backend_recs_fail =
     \<lparr>health = Inr True, fetchUsersFromAPI = Inr [remote_user],
      fetchSegmentStatsFromAPI = Inr [], fetchCitiesFromAPI = Inr [(''Paris'', 1)],
      fetchHourlyEngagementFromAPI = Inr [], fetchWeeklyTrendFromAPI = Inr [],
      fetchRecommendationsFromAPI = no_recommendations\<rparr>"

text \<open>The state of the component when it mounts.\<close>

definition initial_state :: app_state where
  "initial_state =
     \<lparr>loading = True, loadingProgress = 0, loadingStatus = NoStatus, users = [],
      selectedUser = None, recommendations = [], segmentStats = [], cityDistribution = [],
      engagementByHour = [], weeklyTrend = [], usingAPI = False\<rparr>"

section \<open>Auxiliary facts\<close>

subsection \<open>Primitives\<close>

lemma set_uniq: "set (uniq xs) = set xs"
  by (induction xs rule: uniq.induct) auto

lemma distinct_uniq: "distinct (uniq xs)"
  by (induction xs rule: uniq.induct) (auto simp: set_uniq)

lemma length_uniq_card: "length (uniq xs) = card (set xs)"
  using distinct_card [OF distinct_uniq, of xs] by (simp add: set_uniq)

lemma uniq_nonempty: "xs \<noteq> [] \<Longrightarrow> uniq xs \<noteq> []"
  by (cases xs) simp_all

lemma floor_numeral_div:
  "\<lfloor>numeral a / numeral b :: rat\<rfloor> = numeral a div numeral b"
  using floor_divide_of_int_eq [of "numeral a" "numeral b", where ?'a = rat] by simp

lemma floor_one_div_numeral:
  "\<lfloor>1 / numeral b :: rat\<rfloor> = 1 div numeral b"
  using floor_divide_of_int_eq [of 1 "numeral b", where ?'a = rat] by simp

lemmas example_users = example_user_def user_1_def user_2_def user_3_def user_4_def

subsection \<open>Double precision\<close>

lemma pow2_pos: "0 < pow2 e"
  by (simp add: pow2_def)

lemma pow2_Suc: "pow2 (e + 1) = 2 * pow2 e"
proof (cases "0 \<le> e")
  case True
  then show ?thesis by (simp add: pow2_def nat_add_distrib)
next
  case False
  then have "nat (- e) = Suc (nat (- (e + 1)))" by simp
  then show ?thesis using False by (simp add: pow2_def)
qed

lemma pow2_pred: "pow2 (e - 1) = pow2 e / 2"
  using pow2_Suc [of "e - 1"] by simp

lemma pow2_mono: "a \<le> b \<Longrightarrow> pow2 a \<le> pow2 b"
proof -
  assume "a \<le> b"
  then obtain n where b: "b = a + int n" by (metis zle_iff_zadd)
  have "pow2 a \<le> pow2 (a + int n)"
  proof (induction n)
    case 0
    show ?case by simp
  next
    case (Suc n)
    have "a + int (Suc n) = (a + int n) + 1" by simp
    then have "pow2 (a + int (Suc n)) = 2 * pow2 (a + int n)"
      by (simp only: pow2_Suc)
    then show ?case using Suc pow2_pos [of "a + int n"] by simp
  qed
  then show ?thesis by (simp add: b)
qed

lemma ilog2_bounds:
  "0 < x \<Longrightarrow> pow2 (ilog2 x) \<le> x \<and> x < pow2 (ilog2 x + 1)"
proof (induction x rule: ilog2.induct)
  case (1 x)
  show ?case
  proof (cases "x < 1")
    case True
    with "1.prems" have ih: "pow2 (ilog2 (x * 2)) \<le> x * 2 \<and> x * 2 < pow2 (ilog2 (x * 2) + 1)"
      using "1.IH"(1) by simp
    have e: "ilog2 x = ilog2 (x * 2) - 1"
      using True "1.prems" by (subst ilog2.simps) simp
    have p: "pow2 (ilog2 (x * 2) - 1) = pow2 (ilog2 (x * 2)) / 2"
      by (rule pow2_pred)
    have "pow2 (ilog2 (x * 2) - 1) \<le> x" using ih p by linarith
    moreover have "pow2 (ilog2 (x * 2) + 1) = 2 * pow2 (ilog2 (x * 2))"
      by (rule pow2_Suc)
    then have "x < pow2 (ilog2 (x * 2) - 1 + 1)" using ih by simp
    ultimately show ?thesis unfolding e by simp
  next
    case False
    show ?thesis
    proof (cases "2 \<le> x")
      case True
      with False "1.prems"
      have ih: "pow2 (ilog2 (x / 2)) \<le> x / 2 \<and> x / 2 < pow2 (ilog2 (x / 2) + 1)"
        using "1.IH"(2) by simp
      have e: "ilog2 x = ilog2 (x / 2) + 1"
        using True False "1.prems" by (subst ilog2.simps) simp
      have p: "pow2 (ilog2 (x / 2) + 1 + 1) = 2 * pow2 (ilog2 (x / 2) + 1)"
        by (rule pow2_Suc)
      have q: "pow2 (ilog2 (x / 2) + 1) = 2 * pow2 (ilog2 (x / 2))"
        by (rule pow2_Suc)
      have "pow2 (ilog2 (x / 2) + 1) \<le> x" using ih q by linarith
      moreover have "x < pow2 (ilog2 (x / 2) + 1 + 1)" using ih p by linarith
      ultimately show ?thesis unfolding e by simp
    next
      case b: False
      have e: "ilog2 x = 0"
        using b False "1.prems" by (subst ilog2.simps) simp
      show ?thesis using b False unfolding e by (simp add: pow2_def)
    qed
  qed
qed

lemma ilog2_unique:
  assumes "0 < x" and "pow2 e \<le> x" and "x < pow2 (e + 1)"
  shows "ilog2 x = e"
proof (rule ccontr)
  assume ne: "ilog2 x \<noteq> e"
  note b = ilog2_bounds [OF assms(1)]
  show False
  proof (cases "ilog2 x < e")
    case True
    then have "pow2 (ilog2 x + 1) \<le> pow2 e" by (intro pow2_mono) simp
    with b assms(2) show False by simp
  next
    case False
    with ne have "pow2 (e + 1) \<le> pow2 (ilog2 x)" by (intro pow2_mono) simp
    with b assms(3) show False by simp
  qed
qed

lemma round_double_at:
  assumes "pow2 e \<le> x" and "x < pow2 (e + 1)" and "- 1022 \<le> e"
  shows "round_double x = of_int (round_half_even (x / pow2 (e - 52))) * pow2 (e - 52)"
proof -
  have pos: "0 < x" using assms(1) pow2_pos [of e] by simp
  have "ilog2 \<bar>x\<bar> = e" using pos assms by (simp add: ilog2_unique)
  then show ?thesis using pos assms(3) by (simp add: round_double_def Let_def max_def)
qed

lemma round_double_0: "round_double 0 = 0"
  by (simp add: round_double_def)

lemma fmul_0: "fmul 0 x = 0"
  by (simp add: fmul_def round_double_0)

text \<open>The doubles of the literals 0.1, 0.05 and 0.15.\<close>

lemma double_tenth: "round_double (1 / 10) = 3602879701896397 / 36028797018963968"
  by (subst round_double_at [of "- 4"])
     (simp_all add: pow2_def round_half_even_def Let_def floor_numeral_div)

lemma double_twentieth: "round_double (1 / 20) = 3602879701896397 / 72057594037927936"
  by (subst round_double_at [of "- 5"])
     (simp_all add: pow2_def round_half_even_def Let_def floor_numeral_div)

lemma double_three_twentieths: "round_double (3 / 20) = 5404319552844595 / 36028797018963968"
  by (subst round_double_at [of "- 3"])
     (simp_all add: pow2_def round_half_even_def Let_def floor_numeral_div)

text \<open>
  The operations of the likes chain with 100 followers and the draw 0, and with 192
  followers and the draw 0.6979166666666665. In the second chain the doubles give 23
  likes, where the same expression over the rationals has the floor 22.
\<close>

lemma double_zero_t2: "fadd (3602879701896397 / 72057594037927936) 0 = 3602879701896397 / 72057594037927936"
  unfolding fadd_def
  by (subst round_double_at [of "- 5"])
     (simp_all add: pow2_def round_half_even_def Let_def floor_numeral_div)

lemma double_zero_L: "fmul 100 (3602879701896397 / 72057594037927936) = 5"
  unfolding fmul_def
  by (subst round_double_at [of "2"])
     (simp_all add: pow2_def round_half_even_def Let_def floor_numeral_div)

lemma double_zero_C: "fmul 5 (5404319552844595 / 36028797018963968) = 3 / 4"
  unfolding fmul_def
  by (subst round_double_at [of "- 1"])
     (simp_all add: pow2_def round_half_even_def Let_def floor_numeral_div)

lemma double_zero_S: "fmul 5 (3602879701896397 / 72057594037927936) = 1 / 4"
  unfolding fmul_def
  by (subst round_double_at [of "- 2"])
     (simp_all add: pow2_def round_half_even_def Let_def floor_numeral_div)

lemma double_zero_a1: "fadd 5 (3 / 4) = 23 / 4"
  unfolding fadd_def
  by (subst round_double_at [of "2"])
     (simp_all add: pow2_def round_half_even_def Let_def floor_numeral_div)

lemma double_zero_a2: "fadd (23 / 4) (1 / 4) = 6"
  unfolding fadd_def
  by (subst round_double_at [of "2"])
     (simp_all add: pow2_def round_half_even_def Let_def floor_numeral_div)

lemma double_zero_dv: "fdiv 6 100 = 1080863910568919 / 18014398509481984"
  unfolding fdiv_def
  by (subst round_double_at [of "- 5"])
     (simp_all add: pow2_def round_half_even_def Let_def floor_numeral_div)

lemma double_zero_E: "fmul (1080863910568919 / 18014398509481984) 100 = 6"
  unfolding fmul_def
  by (subst round_double_at [of "2"])
     (simp_all add: pow2_def round_half_even_def Let_def floor_numeral_div)

lemma double_ex_t1: "fmul (1571568619967829 / 2251799813685248) (3602879701896397 / 36028797018963968) = 5029019583897053 / 72057594037927936"
  unfolding fmul_def
  by (subst round_double_at [of "- 4"])
     (simp_all add: pow2_def round_half_even_def Let_def floor_numeral_div)

lemma double_ex_t2: "fadd (3602879701896397 / 72057594037927936) (5029019583897053 / 72057594037927936) = 4315949642896725 / 36028797018963968"
  unfolding fadd_def
  by (subst round_double_at [of "- 4"])
     (simp_all add: pow2_def round_half_even_def Let_def floor_numeral_div)

lemma double_ex_L: "fmul 192 (4315949642896725 / 36028797018963968) = 23"
  unfolding fmul_def
  by (subst round_double_at [of "4"])
     (simp_all add: pow2_def round_half_even_def Let_def floor_numeral_div)

lemma double_ex_C: "fmul 23 (5404319552844595 / 36028797018963968) = 7768709357214105 / 2251799813685248"
  unfolding fmul_def
  by (subst round_double_at [of "1"])
     (simp_all add: pow2_def round_half_even_def Let_def floor_numeral_div)

lemma double_ex_S: "fmul 23 (3602879701896397 / 72057594037927936) = 5179139571476071 / 4503599627370496"
  unfolding fmul_def
  by (subst round_double_at [of "0"])
     (simp_all add: pow2_def round_half_even_def Let_def floor_numeral_div)

lemma double_ex_a1: "fadd 23 (7768709357214105 / 2251799813685248) = 7445013133996851 / 281474976710656"
  unfolding fadd_def
  by (subst round_double_at [of "4"])
     (simp_all add: pow2_def round_half_even_def Let_def floor_numeral_div)

lemma double_ex_a2: "fadd (7445013133996851 / 281474976710656) (5179139571476071 / 4503599627370496) = 7768709357214105 / 281474976710656"
  unfolding fadd_def
  by (subst round_double_at [of "4"])
     (simp_all add: pow2_def round_half_even_def Let_def floor_numeral_div)

lemma double_ex_dv: "fdiv (7768709357214105 / 281474976710656) 192 = 2589569785738035 / 18014398509481984"
  unfolding fdiv_def
  by (subst round_double_at [of "- 3"])
     (simp_all add: pow2_def round_half_even_def Let_def floor_numeral_div)

lemma double_ex_E: "fmul (2589569785738035 / 18014398509481984) 100 = 8092405580431359 / 562949953421312"
  unfolding fmul_def
  by (subst round_double_at [of "3"])
     (simp_all add: pow2_def round_half_even_def Let_def floor_numeral_div)

lemmas double_chain =
  double_tenth double_twentieth double_three_twentieths fmul_0
  double_zero_t2 double_zero_L double_zero_C double_zero_S double_zero_a1 double_zero_a2
  double_zero_dv double_zero_E
  double_ex_t1 double_ex_t2 double_ex_L double_ex_C double_ex_S double_ex_a1 double_ex_a2
  double_ex_dv double_ex_E

subsection \<open>Clustering\<close>

lemma clusterUser_keep: "hasSegment u \<Longrightarrow> clusterUser u = u"
  by (simp add: clusterUser_def)

lemma meets_mono:
  "minFollowers s \<le> minFollowers t \<Longrightarrow> minEngagement s \<le> minEngagement t \<Longrightarrow>
   meets u t \<Longrightarrow> meets u s"
  by (auto simp: meets_def split: option.splits)

lemma segments_entries:
  "segments = [segments ! 0, segments ! 1, segments ! 2, segments ! 3, segments ! 4,
               segments ! 5, segments ! 6, segments ! 7]"
  by (simp add: segments_def)

lemma meets_2_1: "meets u (segments ! 2) \<Longrightarrow> meets u (segments ! 1)"
  by (rule meets_mono [of "segments ! 1" "segments ! 2"]) (simp_all add: segments_def)

lemma meets_5_4: "meets u (segments ! 5) \<Longrightarrow> meets u (segments ! 4)"
  by (rule meets_mono [of "segments ! 4" "segments ! 5"]) (simp_all add: segments_def)

lemma meets_7_6: "meets u (segments ! 7) \<Longrightarrow> meets u (segments ! 6)"
  by (rule meets_mono [of "segments ! 6" "segments ! 7"]) (simp_all add: segments_def)

lemma find_butlast_segments:
  "find (meets u) (butlast segments) =
     (if meets u (segments ! 0) then Some (segments ! 0)
      else if meets u (segments ! 1) then Some (segments ! 1)
      else if meets u (segments ! 3) then Some (segments ! 3)
      else if meets u (segments ! 4) then Some (segments ! 4)
      else if meets u (segments ! 6) then Some (segments ! 6)
      else None)"
  using meets_2_1 [of u] meets_5_4 [of u]
  by (subst segments_entries) auto

lemma find_segments:
  "find (meets u) segments =
     (if meets u (segments ! 0) then Some (segments ! 0)
      else if meets u (segments ! 1) then Some (segments ! 1)
      else if meets u (segments ! 3) then Some (segments ! 3)
      else if meets u (segments ! 4) then Some (segments ! 4)
      else if meets u (segments ! 6) then Some (segments ! 6)
      else None)"
  using meets_2_1 [of u] meets_5_4 [of u] meets_7_6 [of u]
  by (subst segments_entries) auto

lemma find_casual:
  "find (\<lambda>s. name s = ''Casual Users'') segments = Some (segments ! 6)"
  by (simp add: segments_def)

lemma clusterUser_first:
  assumes "\<not> hasSegment u"
  shows "clusterUser u =
         (let seg = (case find (meets u) segments of Some s \<Rightarrow> s | None \<Rightarrow> segments ! 6)
          in u\<lparr>segment := Some (name seg), segmentColor := Some (color seg),
                segmentId := Some (seg_id seg)\<rparr>)"
  using assms
  by (simp add: clusterUser_def find_butlast_segments find_segments find_casual Let_def)

lemma clusterUser_outcomes:
  assumes "\<not> hasSegment u"
  shows "(segment (clusterUser u), segmentColor (clusterUser u)) \<in>
           {(Some ''Micro-Influencers'', Some ''#8b5cf6''),
            (Some ''Highly Engaged'', Some ''#3b82f6''),
            (Some ''Growing Accounts'', Some ''#10b981''),
            (Some ''Active Community'', Some ''#f59e0b''),
            (Some ''Casual Users'', Some ''#6b7280'')}"
  unfolding clusterUser_first [OF assms] find_segments Let_def
  by (simp add: segments_def)

lemma clusterUser_has: "hasSegment (clusterUser u)"
proof (cases "hasSegment u")
  case True
  then show ?thesis by (simp add: clusterUser_keep)
next
  case False
  from clusterUser_outcomes [OF this] show ?thesis
    by (auto simp: hasSegment_def truthy_str_def)
qed

subsection \<open>Recommendations\<close>

lemma recommend_userId: "userId (recommend t u) = userId u"
  by (simp add: recommend_def user.defs recommendation.defs)

lemma recommend_similarity: "similarity (recommend t u) = calculateSimilarity t u"
  by (simp add: recommend_def user.defs recommendation.defs)

lemma filter_take_prefix: "prefix (filter P (take n ys)) (filter P ys)"
proof -
  have "filter P ys = filter P (take n ys) @ filter P (drop n ys)"
    by (metis append_take_drop_id filter_append)
  then show ?thesis by (simp add: prefix_def)
qed

lemma similarity_1_2: "calculateSimilarity user_1 user_2 = 7 / 10"
  by (simp add: example_users calculateSimilarity_def or_list_def or_int_def parseFloatOr_def
      parseFloat_def truthy_def Let_def)

lemma similarity_1_3: "calculateSimilarity user_1 user_3 = 1 / 2"
  by (simp add: example_users calculateSimilarity_def or_list_def or_int_def parseFloatOr_def
      parseFloat_def truthy_def Let_def)

lemma recommendations_example:
  "map userId (getRecommendations user_1 [user_1, user_2, user_3] None) = [''U2'', ''U3'']"
  by (simp add: getRecommendations_def recommend_similarity recommend_userId
      similarity_1_2 similarity_1_3)
     (simp add: example_users)

subsection \<open>Random source and synthesizer\<close>

lemma random_ge: "0 \<le> random rnd k"
  using Rep_unit_interval [of "rnd k"] by (simp add: random_def)

lemma random_lt: "random rnd k < 1"
  using Rep_unit_interval [of "rnd k"] by (simp add: random_def)

lemma random_zero_rng: "random zero_rng k = 0"
  by (simp add: random_def zero_rng_def Abs_unit_interval_inverse)

lemma random_high_rng: "random high_rng k = 2047 / 2048"
  by (simp add: random_def high_rng_def Abs_unit_interval_inverse)

lemma random_example_rng:
  "random example_rng k =
     (if k = 3 then 485 / 262144
      else if k = 6 then 1571568619967829 / 2251799813685248
      else 0)"
  by (simp add: random_def example_rng_def Abs_unit_interval_inverse)

lemma floor_scaled:
  assumes "0 \<le> r" and "r < 1" and "0 < n"
  shows "0 \<le> \<lfloor>r * of_int n\<rfloor> \<and> \<lfloor>r * of_int n\<rfloor> < n"
proof -
  have "0 \<le> \<lfloor>r * of_int n\<rfloor>" using assms by simp
  moreover have "r * of_int n < of_int n" using assms by simp
  then have "\<lfloor>r * of_int n\<rfloor> < n" by (simp add: floor_less_iff)
  ultimately show ?thesis by simp
qed

lemma random_floor:
  assumes "0 < n"
  shows "0 \<le> \<lfloor>random rnd k * of_int n\<rfloor> \<and> \<lfloor>random rnd k * of_int n\<rfloor> < n"
  using floor_scaled [OF random_ge random_lt assms] by simp

lemma pickInterests_distinct:
  "distinct acc \<Longrightarrow> distinct (pickInterests rnd k j acc)"
  by (induction j arbitrary: k acc) (auto simp: Let_def)

lemma pickInterests_length_le:
  "length (pickInterests rnd k j acc) \<le> length acc + j"
proof (induction j arbitrary: k acc)
  case 0
  show ?case by simp
next
  case (Suc j)
  let ?x = "interests_list ! nat \<lfloor>random rnd k * of_nat (length interests_list)\<rfloor>"
  show ?case
  proof (cases "?x \<in> set acc")
    case True
    then show ?thesis using Suc [of "Suc k" acc] by (simp add: Let_def)
  next
    case False
    then show ?thesis using Suc [of "Suc k" "acc @ [?x]"] by (simp add: Let_def)
  qed
qed

lemma pickInterests_length_ge:
  "length acc \<le> length (pickInterests rnd k j acc)"
proof (induction j arbitrary: k acc)
  case 0
  show ?case by simp
next
  case (Suc j)
  let ?x = "interests_list ! nat \<lfloor>random rnd k * of_nat (length interests_list)\<rfloor>"
  show ?case
  proof (cases "?x \<in> set acc")
    case True
    then show ?thesis using Suc [of acc "Suc k"] by (simp add: Let_def)
  next
    case False
    then show ?thesis using Suc [of "acc @ [?x]" "Suc k"] by (simp add: Let_def)
  qed
qed

lemma pickInterests_nonempty:
  assumes "0 < j"
  shows "pickInterests rnd k j [] \<noteq> []"
proof -
  obtain j' where j: "j = Suc j'" using assms by (cases j) simp_all
  let ?x = "interests_list ! nat \<lfloor>random rnd k * of_nat (length interests_list)\<rfloor>"
  have "1 \<le> length (pickInterests rnd (Suc k) j' [?x])"
    using pickInterests_length_ge [of "[?x]" rnd "Suc k" j'] by simp
  then show ?thesis unfolding j by (auto simp: Let_def)
qed

lemma numInterests_range:
  "2 \<le> nat (\<lfloor>random rnd k * 4\<rfloor> + 2) \<and> nat (\<lfloor>random rnd k * 4\<rfloor> + 2) \<le> 5"
proof -
  have "0 \<le> \<lfloor>random rnd k * 4\<rfloor> \<and> \<lfloor>random rnd k * 4\<rfloor> < 4"
    using random_floor [of 4 rnd k] by simp
  then show ?thesis by linarith
qed

lemma generateUser_interests:
  "case interests (fst (generateUser rnd k i)) of None \<Rightarrow> False
   | Some tags \<Rightarrow> 1 \<le> length tags \<and> length tags \<le> 5 \<and> distinct tags"
proof -
  let ?n = "nat (\<lfloor>random rnd k * 4\<rfloor> + 2)"
  let ?tags = "pickInterests rnd (k + 1) ?n []"
  have "0 < ?n" using numInterests_range [of rnd k] by linarith
  then have "?tags \<noteq> []" by (rule pickInterests_nonempty)
  then have "1 \<le> length ?tags" by (cases ?tags) simp_all
  moreover have "length ?tags \<le> 5"
    using pickInterests_length_le [of rnd "k + 1" ?n "[]"] numInterests_range [of rnd k] by simp
  moreover have "distinct ?tags" by (rule pickInterests_distinct) simp
  ultimately show ?thesis by (simp add: generateUser_def Let_def)
qed

lemma generateUser_ranges:
  "in_range (followers (fst (generateUser rnd k i))) 100 50100 \<and>
   in_range (following (fst (generateUser rnd k i))) 50 2050 \<and>
   in_range (posts (fst (generateUser rnd k i))) 10 510 \<and>
   in_range (age (fst (generateUser rnd k i))) 18 58"
  using random_floor [of 50000 rnd] random_floor [of 2000 rnd] random_floor [of 500 rnd]
    random_floor [of 40 rnd]
  by (simp add: generateUser_def Let_def in_range_def)

lemma influence_range:
  assumes "0 \<le> r" and "r < 1"
  shows "toFixed 3 (r * (1 / 2) + 3 / 10) = Fixed 3 \<lfloor>r * 500 + 300 + 1 / 2\<rfloor> \<and>
         300 \<le> \<lfloor>r * 500 + 300 + 1 / 2\<rfloor> \<and> \<lfloor>r * 500 + 300 + 1 / 2\<rfloor> \<le> 800"
proof -
  have a: "toFixed 3 (r * (1 / 2) + 3 / 10) = Fixed 3 \<lfloor>r * 500 + 300 + 1 / 2\<rfloor>"
    using assms by (simp add: toFixed_def algebra_simps not_less)
  have b: "300 \<le> \<lfloor>r * 500 + 300 + 1 / 2\<rfloor>" using assms by (simp add: le_floor_iff)
  have "r * 500 + 300 + 1 / 2 < 801" using assms by simp
  then have "\<lfloor>r * 500 + 300 + 1 / 2\<rfloor> < 801" by (simp add: floor_less_iff)
  then have c: "\<lfloor>r * 500 + 300 + 1 / 2\<rfloor> \<le> 800" by simp
  from a b c show ?thesis by simp
qed

lemma generateUser_influence:
  "case influenceScore (fst (generateUser rnd k i)) of
     Fixed d m \<Rightarrow> d = 3 \<and> 300 \<le> m \<and> m \<le> 800 | _ \<Rightarrow> False"
  using influence_range [OF random_ge random_lt, of rnd]
  by (simp add: generateUser_def Let_def)

lemma generateUser_engagement:
  "\<exists>j F L. 100 \<le> F \<and> followers (fst (generateUser rnd k i)) = Some F \<and>
      L = fmul (of_int F)
            (fadd (round_double (5 / 100)) (fmul (random rnd j) (round_double (1 / 10)))) \<and>
      likes (fst (generateUser rnd k i)) = Some \<lfloor>L\<rfloor> \<and>
      comments (fst (generateUser rnd k i)) = Some \<lfloor>fmul L (round_double (15 / 100))\<rfloor> \<and>
      shares (fst (generateUser rnd k i)) = Some \<lfloor>fmul L (round_double (5 / 100))\<rfloor> \<and>
      engagementRate (fst (generateUser rnd k i)) =
        toFixed 2
          (fmul (fdiv (fadd (fadd L (fmul L (round_double (15 / 100))))
                            (fmul L (round_double (5 / 100))))
                      (of_int F))
                100)"
proof -
  define k1 where "k1 = k + 1 + nat (\<lfloor>random rnd k * 4\<rfloor> + 2)"
  define F where "F = \<lfloor>random rnd k1 * 50000\<rfloor> + 100"
  define L where
    "L = fmul (of_int F)
           (fadd (round_double (5 / 100)) (fmul (random rnd (k1 + 3)) (round_double (1 / 10))))"
  have "100 \<le> F" using random_floor [of 50000 rnd k1] by (simp add: F_def)
  moreover have "followers (fst (generateUser rnd k i)) = Some F"
    "likes (fst (generateUser rnd k i)) = Some \<lfloor>L\<rfloor>"
    "comments (fst (generateUser rnd k i)) = Some \<lfloor>fmul L (round_double (15 / 100))\<rfloor>"
    "shares (fst (generateUser rnd k i)) = Some \<lfloor>fmul L (round_double (5 / 100))\<rfloor>"
    "engagementRate (fst (generateUser rnd k i)) =
        toFixed 2
          (fmul (fdiv (fadd (fadd L (fmul L (round_double (15 / 100))))
                            (fmul L (round_double (5 / 100))))
                      (of_int F))
                100)"
    unfolding generateUser_def Let_def k1_def F_def L_def
    by (simp_all only: fst_conv user.select_convs)
  ultimately show ?thesis unfolding L_def by blast
qed

lemma generateUsers_all:
  assumes "\<And>k i. P (fst (generateUser rnd k i))"
  shows "u \<in> set (fst (generateUsers rnd k i c)) \<Longrightarrow> P u"
proof (induction c arbitrary: k i)
  case 0
  then show ?case by simp
next
  case (Suc c)
  obtain v k' where g: "generateUser rnd k i = (v, k')" by (cases "generateUser rnd k i")
  obtain vs k'' where gs: "generateUsers rnd k' (Suc i) c = (vs, k'')"
    by (cases "generateUsers rnd k' (Suc i) c")
  from Suc.prems g gs have "u = v \<or> u \<in> set vs" by simp
  then show ?case
  proof
    assume "u = v"
    then show ?thesis using assms [of k i] g by simp
  next
    assume "u \<in> set vs"
    then show ?thesis using Suc.IH [of k' "Suc i"] gs by simp
  qed
qed

lemma generateUsers_length: "length (fst (generateUsers rnd k i c)) = c"
proof (induction c arbitrary: k i)
  case 0
  show ?case by simp
next
  case (Suc c)
  obtain v k' where g: "generateUser rnd k i = (v, k')" by (cases "generateUser rnd k i")
  obtain vs k'' where gs: "generateUsers rnd k' (Suc i) c = (vs, k'')"
    by (cases "generateUsers rnd k' (Suc i) c")
  show ?case using Suc [of k' "Suc i"] g gs by simp
qed

lemma generateUserData_synthetic:
  "generateUserData None rnd k n = generateUsers rnd k 0 n"
  by (simp add: generateUserData_def)

lemma generateUserData_nonempty:
  assumes "0 < n"
  shows "fst (generateUserData kd rnd k n) \<noteq> []"
proof -
  have g: "fst (generateUsers rnd k 0 n) \<noteq> []"
    using generateUsers_length [of rnd k 0 n] assms by auto
  show ?thesis
  proof (cases kd)
    case None
    then show ?thesis using g by (simp add: generateUserData_def)
  next
    case (Some ks)
    then show ?thesis using g assms by (cases ks) (simp_all add: generateUserData_def)
  qed
qed

lemma generateUser_zero_rng:
  "fst (generateUser zero_rng 0 0) =
     \<lparr>userId = ''U0001'', username = ''user_1'', age = Some 18, gender = Some ''Male'',
      city = Some ''New York'', interests = Some [''technology''], followers = Some 100,
      following = Some 50, posts = Some 10, likes = Some 5, comments = Some 0, shares = Some 0,
      engagementRate = Fixed 2 600, influenceScore = Fixed 3 300,
      segment = None, segmentColor = None, segmentId = None\<rparr>"
  by (simp add: generateUser_def random_zero_rng Let_def numeral_2_eq_2 interests_list_def
      padStart_def pick_def genders_def cities_def toFixed_def floor_numeral_div
      floor_one_div_numeral numeral_3_eq_3 double_chain)

lemma generateUser_example_rng:
  "followers (fst (generateUser example_rng 0 0)) = Some 192 \<and>
   likes (fst (generateUser example_rng 0 0)) = Some 23 \<and>
   comments (fst (generateUser example_rng 0 0)) = Some 3 \<and>
   shares (fst (generateUser example_rng 0 0)) = Some 1 \<and>
   engagementRate (fst (generateUser example_rng 0 0)) = Fixed 2 1437"
  by (simp add: generateUser_def random_example_rng Let_def toFixed_def floor_numeral_div
      double_chain)

lemma generateUserData_zero_rng:
  "fst (generateUserData None zero_rng 0 (Suc 0)) = [fst (generateUser zero_rng 0 0)]"
  by (simp add: generateUserData_def split_beta Let_def)

subsection \<open>Aggregates\<close>

lemma update_fresh: "k \<notin> fst ` set al \<Longrightarrow> AList.update k v al = al @ [(k, v)]"
  by (induction al) auto

lemma fold_update_fresh:
  "distinct (map f ks) \<Longrightarrow> f ` set ks \<inter> fst ` set acc = {} \<Longrightarrow>
   fold (\<lambda>k st. AList.update (f k) (g k) st) ks acc = acc @ map (\<lambda>k. (f k, g k)) ks"
proof (induction ks arbitrary: acc)
  case Nil
  show ?case by simp
next
  case (Cons k ks)
  have fresh: "f k \<notin> fst ` set acc" using Cons.prems(2) by auto
  have "f ` set ks \<inter> fst ` set (acc @ [(f k, g k)]) = {}"
    using Cons.prems by auto
  with Cons.IH [of "acc @ [(f k, g k)]"] Cons.prems(1) fresh
  show ?case by (simp add: update_fresh)
qed

lemma fold_update_nonempty:
  "xs \<noteq> [] \<Longrightarrow> fold (\<lambda>x al. AList.update (kf x al) (vf x al) al) xs acc \<noteq> []"
proof (induction xs arbitrary: acc rule: rev_induct)
  case Nil
  then show ?case by simp
next
  case (snoc x xs)
  show ?case by simp
qed

lemma sort_key_nonempty: "xs \<noteq> [] \<Longrightarrow> sort_key f xs \<noteq> []"
proof -
  assume "xs \<noteq> []"
  then have "length (sort_key f xs) \<noteq> 0" by simp
  then show ?thesis by fastforce
qed

lemma count_by_key:
  assumes "distinct ks" and "f ` set xs \<subseteq> set ks"
  shows "(\<Sum>k\<leftarrow>ks. length (filter (\<lambda>x. f x = k) xs)) = length xs"
  using assms(2)
proof (induction xs)
  case Nil
  show ?case by simp
next
  case (Cons x xs)
  have in_ks: "f x \<in> set ks" using Cons.prems by simp
  have one: "(\<Sum>k\<leftarrow>ks. if f x = k then 1 else 0) = (1::nat)"
    using assms(1) in_ks by (simp add: sum_list_distinct_conv_sum_set)
  have "(\<Sum>k\<leftarrow>ks. length (filter (\<lambda>y. f y = k) (x # xs)))
        = (\<Sum>k\<leftarrow>ks. (if f x = k then 1 else 0) + length (filter (\<lambda>y. f y = k) xs))"
    by (rule arg_cong [where f = sum_list]) simp
  also have "\<dots> = (\<Sum>k\<leftarrow>ks. if f x = k then 1 else 0)
                   + (\<Sum>k\<leftarrow>ks. length (filter (\<lambda>y. f y = k) xs))"
    by (simp add: sum_list_addf)
  finally show ?case using one Cons by simp
qed

lemma of_nat_sum_list_map:
  "(\<Sum>k\<leftarrow>ks. (of_nat (f k) :: rat)) = of_nat (\<Sum>k\<leftarrow>ks. f k)"
  by (induction ks) simp_all

lemma sum_list_abs_diff:
  fixes f g :: "'a \<Rightarrow> rat"
  assumes "\<And>k. k \<in> set ks \<Longrightarrow> \<bar>f k - g k\<bar> \<le> e"
  shows "\<bar>(\<Sum>k\<leftarrow>ks. f k) - (\<Sum>k\<leftarrow>ks. g k)\<bar> \<le> of_nat (length ks) * e"
  using assms
proof (induction ks)
  case Nil
  show ?case by simp
next
  case (Cons k ks)
  have a: "\<bar>f k - g k\<bar> \<le> e" using Cons.prems by simp
  have b: "\<bar>(\<Sum>k\<leftarrow>ks. f k) - (\<Sum>k\<leftarrow>ks. g k)\<bar> \<le> of_nat (length ks) * e"
    using Cons by simp
  show ?case using a b by (simp add: algebra_simps abs_le_iff)
qed

lemma toFixed1_error:
  assumes "0 \<le> x"
  shows "\<bar>parseFloatOr (toFixed 1 x) 0 - x\<bar> \<le> 1 / 20"
proof -
  define m where "m = \<lfloor>x * 10 + 1 / 2\<rfloor>"
  have v: "parseFloatOr (toFixed 1 x) 0 = of_int m / 10"
    using assms by (simp add: parseFloatOr_def toFixed_def truthy_def parseFloat_def m_def)
  have lo: "of_int m \<le> x * 10 + 1 / 2" unfolding m_def by (rule of_int_floor_le)
  have hi: "x * 10 + 1 / 2 < of_int m + 1" unfolding m_def by linarith
  have "\<bar>of_int m / 10 - x\<bar> \<le> 1 / 20" using lo hi by linarith
  then show ?thesis by (simp only: v)
qed

lemma getSegmentStats_fold:
  "getSegmentStats us =
   fold (\<lambda>n st. AList.update (str_opt n) (segmentStatsOf us n) st) (uniq (map segment us)) []"
proof -
  have pos: "\<And>n. n \<in> set (uniq (map segment us)) \<Longrightarrow> filter (\<lambda>u. segment u = n) us \<noteq> []"
    by (auto simp: set_uniq filter_empty_conv)
  show ?thesis
    unfolding getSegmentStats_def by (rule fold_cong) (auto simp: pos fun_eq_iff)
qed

lemma getSegmentStats_map:
  assumes "\<forall>u \<in> set us. segment u \<noteq> None"
  shows "getSegmentStats us =
         map (\<lambda>n. (str_opt n, segmentStatsOf us n)) (uniq (map segment us))"
proof -
  have "inj_on str_opt (set (uniq (map segment us)))"
    using assms by (auto simp: inj_on_def set_uniq str_opt_def split: option.splits)
  then have "distinct (map str_opt (uniq (map segment us)))"
    by (simp add: distinct_map distinct_uniq)
  then show ?thesis by (simp add: getSegmentStats_fold fold_update_fresh)
qed

lemma getSegmentStats_nonempty: "us \<noteq> [] \<Longrightarrow> getSegmentStats us \<noteq> []"
proof -
  assume ne: "us \<noteq> []"
  define kf where "kf = (\<lambda>(n::string option) (al::(string \<times> segment_stats) list). str_opt n)"
  define vf where
    "vf = (\<lambda>(n::string option) (al::(string \<times> segment_stats) list). segmentStatsOf us n)"
  have k: "uniq (map segment us) \<noteq> []" using ne by (simp add: uniq_nonempty)
  have "fold (\<lambda>n al. AList.update (kf n al) (vf n al) al) (uniq (map segment us)) [] \<noteq> []"
    using k by (rule fold_update_nonempty)
  then show ?thesis by (simp add: getSegmentStats_fold kf_def vf_def)
qed

lemma getCityDistribution_nonempty: "us \<noteq> [] \<Longrightarrow> getCityDistribution us \<noteq> []"
proof -
  assume ne: "us \<noteq> []"
  define kf where "kf = (\<lambda>(u::user) (al::(string \<times> nat) list). or_str (city u) ''Unknown'')"
  define vf where "vf = (\<lambda>(u::user) (al::(string \<times> nat) list).
       (case map_of al (or_str (city u) ''Unknown'') of None \<Rightarrow> 0 | Some n \<Rightarrow> n) + (1::nat))"
  have d: "fold (\<lambda>u al. AList.update (kf u al) (vf u al) al) us [] \<noteq> []"
    using ne by (rule fold_update_nonempty)
  have "take 8 (sort_key (\<lambda>e. - int (snd e))
                  (fold (\<lambda>u al. AList.update (kf u al) (vf u al) al) us [])) \<noteq> []"
    using sort_key_nonempty [OF d] by simp
  then show ?thesis by (simp add: getCityDistribution_def Let_def kf_def vf_def)
qed

lemma hourly_length: "length (fst (getEngagementByHour rnd k)) = 24"
  by (simp add: getEngagementByHour_def)

lemma weekly_length: "length (fst (getWeeklyTrend rnd k)) = 7"
  by (simp add: getWeeklyTrend_def Let_def)

lemma six_users_percentages: "percentageSum (getSegmentStats six_users) = 1002 / 10"
  by (simp add: percentageSum_def getSegmentStats_def six_users_def sample_user_def
      segmentStatsOf_def toFixed_def parseFloatOr_def parseFloat_def truthy_def str_opt_def
      Let_def floor_numeral_div)

subsection \<open>Orchestrator\<close>

lemma first_hd: "xs \<noteq> [] \<Longrightarrow> first xs = Some (hd xs)"
  by (cases xs) (simp_all add: first_def)

lemma localRecommendations_hd:
  "xs \<noteq> [] \<Longrightarrow> localRecommendations xs = getRecommendations (hd xs) xs None"
  by (cases xs) (simp_all add: localRecommendations_def)

lemma performClustering_nonempty:
  "0 < n \<Longrightarrow> performClustering (fst (generateUserData kd rnd k n)) \<noteq> []"
  using generateUserData_nonempty [of n kd rnd k] by (simp add: performClustering_def)

lemma initializeData_unavailable:
  assumes "\<not> checkAPIHealth b"
  shows "initializeData kd b rnd s =
     (let cl = performClustering (fst (generateUserData kd rnd 0 1000));
          k1 = snd (generateUserData kd rnd 0 1000);
          k2 = snd (getEngagementByHour rnd k1)
      in s\<lparr>loading := False, loadingProgress := 100, loadingStatus := UsingLocalGeneration,
            usingAPI := False, users := cl, selectedUser := first cl,
            segmentStats := getSegmentStats cl, cityDistribution := getCityDistribution cl,
            engagementByHour := fst (getEngagementByHour rnd k1),
            weeklyTrend := fst (getWeeklyTrend rnd k2),
            recommendations := localRecommendations cl\<rparr>)"
  using assms by (simp add: initializeData_def Let_def split_beta)

lemma initializeData_throw:
  assumes "checkAPIHealth b" and "remoteSequence b = Inl e"
  shows "initializeData kd b rnd s =
     (let cl = performClustering (fst (generateUserData kd rnd 0 500));
          k1 = snd (generateUserData kd rnd 0 500);
          k2 = snd (getEngagementByHour rnd k1)
      in s\<lparr>loading := False, loadingProgress := 100, loadingStatus := UsingLocalFallback,
            usingAPI := True, users := cl, selectedUser := first cl,
            segmentStats := getSegmentStats cl, cityDistribution := getCityDistribution cl,
            engagementByHour := fst (getEngagementByHour rnd k1),
            weeklyTrend := fst (getWeeklyTrend rnd k2),
            recommendations := localRecommendations cl\<rparr>)"
  using assms by (simp add: initializeData_def Let_def split_beta)

lemma initializeData_unavailable_local:
  assumes "\<not> checkAPIHealth b"
  shows "\<not> usingAPI (initializeData kd b rnd s) \<and>
         localDataset kd rnd 1000 (initializeData kd b rnd s)"
  using performClustering_nonempty [of 1000 kd rnd 0]
  by (simp add: initializeData_unavailable [OF assms] Let_def localDataset_def first_hd
      localRecommendations_hd getSegmentStats_nonempty getCityDistribution_nonempty
      hourly_length weekly_length)

lemma initializeData_throw_local:
  assumes "checkAPIHealth b" and "remoteSequence b = Inl e"
  shows "localDataset kd rnd 500 (initializeData kd b rnd s)"
  using performClustering_nonempty [of 500 kd rnd 0]
  by (simp add: initializeData_throw [OF assms] Let_def localDataset_def first_hd
      localRecommendations_hd getSegmentStats_nonempty getCityDistribution_nonempty
      hourly_length weekly_length)

lemma initializeData_recommendations_throw:
  assumes "checkAPIHealth b" and "remoteSequence b = Inr (cu, st, cs, ho, we)"
    and "first cu = Some u" and "fetchRecommendationsFromAPI b (userId u) = Inl e"
  shows "users (initializeData kd b rnd s) = cu \<and>
         selectedUser (initializeData kd b rnd s) = Some u \<and>
         segmentStats (initializeData kd b rnd s) = st \<and>
         cityDistribution (initializeData kd b rnd s) = cs \<and>
         engagementByHour (initializeData kd b rnd s) = ho \<and>
         weeklyTrend (initializeData kd b rnd s) = we \<and>
         recommendations (initializeData kd b rnd s) = getRecommendations u cu None \<and>
         usingAPI (initializeData kd b rnd s) \<and> \<not> loading (initializeData kd b rnd s)"
proof -
  obtain rest where cu: "cu = u # rest"
    using assms(3) by (cases cu) (simp_all add: first_def)
  show ?thesis
    using assms by (simp add: initializeData_def Let_def cu first_def localRecommendations_def)
qed

lemma backend_down_health: "\<not> checkAPIHealth backend_down"
  by (simp add: checkAPIHealth_def backend_down_def)

lemma backend_users_fail_throws:
  "checkAPIHealth backend_users_fail \<and> remoteSequence backend_users_fail = Inl FetchFailed"
  by (simp add: checkAPIHealth_def remoteSequence_def backend_users_fail_def)

lemma backend_recs_fail_throws:
  "checkAPIHealth backend_recs_fail \<and>
   remoteSequence backend_recs_fail = Inr ([remote_user], [], [(''Paris'', 1)], [], []) \<and>
   first [remote_user] = Some remote_user \<and>
   fetchRecommendationsFromAPI backend_recs_fail (userId remote_user) = Inl FetchFailed"
  by (simp add: checkAPIHealth_def remoteSequence_def backend_recs_fail_def first_def
      no_recommendations_def)

section \<open>Claims about the local analytics approximator\<close>

text \<open>
  C1. For every pair of user records, \<open>calculateSimilarity\<close> gives the same score in
  both argument orders, and the score lies in the closed interval from 0 to 1.
\<close>

theorem calculateSimilarity_symmetric_bounded:
  "calculateSimilarity a b = calculateSimilarity b a \<and>
   0 \<le> calculateSimilarity a b \<and> calculateSimilarity a b \<le> 1"
proof -
  have sym: "calculateSimilarity a b = calculateSimilarity b a"
    unfolding calculateSimilarity_def Let_def
    by (simp add: length_uniq_card set_uniq Int_commute Un_commute abs_minus_commute
        eq_commute [of "city a"] Collect_conj_eq inf_commute)
  have lower: "0 \<le> calculateSimilarity a b"
    unfolding calculateSimilarity_def Let_def by (auto simp: min_def max_def)
  have upper: "calculateSimilarity a b \<le> 1"
    unfolding calculateSimilarity_def Let_def by simp
  from sym lower upper show ?thesis by simp
qed

theorem calculateSimilarity_symmetric_bounded_witness:
  "calculateSimilarity user_1 user_3 = calculateSimilarity user_3 user_1 \<and>
   calculateSimilarity user_1 user_3 = 1 / 2"
  using calculateSimilarity_symmetric_bounded [of user_1 user_3]
  by (simp add: similarity_1_3)

text \<open>
  C2. For every user record that does not pass the guard on a segment already present,
  \<open>performClustering\<close> assigns the first entry of the catalog, in its declared order,
  whose two thresholds the user meets, with the name, the colour and the id of that
  entry, and the catch-all entry \<open>Casual Users\<close> when no entry with a positive
  threshold is met; a user that meets the thresholds of the entries 0 and 2 gets the
  entry 0.
\<close>

theorem performClustering_first_match:
  assumes "i < length us" and "\<not> hasSegment (us ! i)"
  shows "(case find (meets (us ! i)) segments of
            Some s \<Rightarrow> segment (performClustering us ! i) = Some (name s) \<and>
                      segmentColor (performClustering us ! i) = Some (color s) \<and>
                      segmentId (performClustering us ! i) = Some (seg_id s)
          | None \<Rightarrow> segment (performClustering us ! i) = Some ''Casual Users'') \<and>
         ((\<forall>s \<in> set segments. (0 < minFollowers s \<or> 0 < minEngagement s) \<longrightarrow> \<not> meets (us ! i) s)
            \<longrightarrow> segment (performClustering us ! i) = Some ''Casual Users'') \<and>
         (meets (us ! i) (segments ! 0) \<and> meets (us ! i) (segments ! 2)
            \<longrightarrow> segment (performClustering us ! i) = Some (name (segments ! 0)))"
proof -
  let ?u = "us ! i"
  have r: "performClustering us ! i = clusterUser ?u"
    using assms(1) by (simp add: performClustering_def)
  note c = clusterUser_first [OF assms(2)]
  have first: "case find (meets ?u) segments of
            Some s \<Rightarrow> segment (clusterUser ?u) = Some (name s) \<and>
                      segmentColor (clusterUser ?u) = Some (color s) \<and>
                      segmentId (clusterUser ?u) = Some (seg_id s)
          | None \<Rightarrow> segment (clusterUser ?u) = Some ''Casual Users''"
    unfolding c Let_def by (cases "find (meets ?u) segments") (simp_all add: segments_def)
  have none: "segment (clusterUser ?u) = Some ''Casual Users''"
    if "\<forall>s \<in> set segments. (0 < minFollowers s \<or> 0 < minEngagement s) \<longrightarrow> \<not> meets ?u s"
  proof -
    have "\<not> meets ?u (segments ! 0)" "\<not> meets ?u (segments ! 1)" "\<not> meets ?u (segments ! 3)"
      "\<not> meets ?u (segments ! 4)"
      using that by (simp_all add: segments_def)
    then show ?thesis
      unfolding c find_segments Let_def by (simp add: segments_def)
  qed
  have top: "segment (clusterUser ?u) = Some (name (segments ! 0))"
    if "meets ?u (segments ! 0) \<and> meets ?u (segments ! 2)"
    using that unfolding c find_segments Let_def by simp
  from first none top show ?thesis unfolding r by blast
qed

theorem performClustering_first_match_witness:
  "segment (performClustering [user_1, user_3] ! 0) = Some ''Micro-Influencers'' \<and>
   segment (performClustering [user_1, user_3] ! 1) = Some ''Casual Users''"
proof -
  have h: "\<not> hasSegment user_1" "\<not> hasSegment user_3"
    by (simp_all add: example_users hasSegment_def truthy_str_def)
  have m1: "meets user_1 (segments ! 0) \<and> meets user_1 (segments ! 2)"
    by (simp add: example_users meets_def parseFloat_def segments_def)
  have m3: "\<forall>s \<in> set segments. (0 < minFollowers s \<or> 0 < minEngagement s) \<longrightarrow> \<not> meets user_3 s"
    by (simp add: example_users meets_def parseFloat_def segments_def)
  from performClustering_first_match [of 0 "[user_1, user_3]"] h(1) m1
  have a: "segment (performClustering [user_1, user_3] ! 0) = Some ''Micro-Influencers''"
    by (simp add: segments_def)
  from performClustering_first_match [of 1 "[user_1, user_3]"] h(2) m3
  have b: "segment (performClustering [user_1, user_3] ! 1) = Some ''Casual Users''"
    by simp
  from a b show ?thesis by simp
qed

text \<open>
  C9. The entries 1 and 2 of the catalog have the same thresholds, and
  \<open>performClustering\<close> never assigns \<open>Engaged Creators\<close>, the second of them, to a user
  record that does not pass the guard on a segment already present.
\<close>

theorem performClustering_never_engaged_creators:
  assumes "i < length us" and "\<not> hasSegment (us ! i)"
  shows "minFollowers (segments ! 2) = minFollowers (segments ! 1) \<and>
         minEngagement (segments ! 2) = minEngagement (segments ! 1) \<and>
         name (segments ! 2) = ''Engaged Creators'' \<and>
         segment (performClustering us ! i) \<noteq> Some ''Engaged Creators''"
proof -
  have r: "performClustering us ! i = clusterUser (us ! i)"
    using assms(1) by (simp add: performClustering_def)
  have "segment (clusterUser (us ! i)) \<noteq> Some ''Engaged Creators''"
    using clusterUser_outcomes [OF assms(2)] by auto
  then show ?thesis unfolding r by (simp add: segments_def)
qed

theorem performClustering_never_engaged_creators_witness:
  "meets user_4 (segments ! 2) \<and>
   segment (performClustering [user_4] ! 0) \<noteq> Some ''Engaged Creators''"
proof -
  have h: "\<not> hasSegment user_4"
    by (simp add: example_users hasSegment_def truthy_str_def)
  have m: "meets user_4 (segments ! 2)"
    by (simp add: example_users meets_def parseFloat_def segments_def)
  from performClustering_never_engaged_creators [of 0 "[user_4]"] h m show ?thesis by simp
qed

text \<open>
  C10. A user record that carries a truthy segment and a truthy segment colour comes
  out of \<open>performClustering\<close> unchanged, whatever its followers and engagement rate
  are, and running \<open>performClustering\<close> on its own output changes nothing.
\<close>

theorem performClustering_keeps_segment:
  "(i < length us \<and> hasSegment (us ! i) \<longrightarrow> performClustering us ! i = us ! i) \<and>
   performClustering (performClustering us) = performClustering us"
  by (simp add: performClustering_def clusterUser_keep clusterUser_has)

theorem performClustering_keeps_segment_witness:
  "performClustering [kept_user] ! 0 = kept_user \<and>
   segment kept_user = Some ''Engaged Creators'' \<and> \<not> meets kept_user (segments ! 2)"
proof -
  have h: "hasSegment kept_user"
    by (simp add: kept_user_def sample_user_def hasSegment_def truthy_str_def)
  have m: "segment kept_user = Some ''Engaged Creators'' \<and> \<not> meets kept_user (segments ! 2)"
    by (simp add: kept_user_def sample_user_def meets_def segments_def)
  from performClustering_keeps_segment [of 0 "[kept_user]"] h m show ?thesis by simp
qed

text \<open>
  C3. For every target user and every collection, \<open>getRecommendations\<close> returns no
  record with the user id of the target, returns at most \<open>n\<close> records (10 when \<open>n\<close> is
  left out), each of them a user of the collection with its computed similarity, in
  descending order of similarity; the records of any one similarity are, in their
  order, a prefix of the input records of that similarity.
\<close>

theorem getRecommendations_sorted_stable:
  "(\<forall>r \<in> set (getRecommendations t us n). userId r \<noteq> userId t) \<and>
   length (getRecommendations t us n) \<le> (case n of None \<Rightarrow> 10 | Some k \<Rightarrow> k) \<and>
   (\<forall>r \<in> set (getRecommendations t us n). \<exists>u \<in> set us. r = recommend t u \<and>
        similarity r = calculateSimilarity t u) \<and>
   sorted_wrt (\<lambda>a b. similarity a \<ge> similarity b) (getRecommendations t us n) \<and>
   (\<forall>k. prefix (filter (\<lambda>r. similarity r = k) (getRecommendations t us n))
               (filter (\<lambda>r. similarity r = k)
                  (map (recommend t) (filter (\<lambda>u. userId u \<noteq> userId t) us))))"
proof -
  define cands where "cands = map (recommend t) (filter (\<lambda>u. userId u \<noteq> userId t) us)"
  define m where "m = (case n of None \<Rightarrow> (10::nat) | Some k \<Rightarrow> k)"
  have g: "getRecommendations t us n = take m (sort_key (\<lambda>r. - similarity r) cands)"
    by (simp add: getRecommendations_def cands_def m_def)
  have sub: "set (getRecommendations t us n) \<subseteq> set cands"
    unfolding g using set_take_subset [of m "sort_key (\<lambda>r. - similarity r) cands"] by simp
  have p1: "\<forall>r \<in> set (getRecommendations t us n). userId r \<noteq> userId t"
    using sub by (auto simp: cands_def recommend_userId)
  have p2: "length (getRecommendations t us n) \<le> m"
    unfolding g by simp
  have p3: "\<forall>r \<in> set (getRecommendations t us n). \<exists>u \<in> set us. r = recommend t u \<and>
        similarity r = calculateSimilarity t u"
  proof
    fix r assume "r \<in> set (getRecommendations t us n)"
    with sub have "r \<in> set cands" by blast
    then obtain u where "u \<in> set us" "r = recommend t u" by (auto simp: cands_def)
    then show "\<exists>u \<in> set us. r = recommend t u \<and> similarity r = calculateSimilarity t u"
      by (auto simp: recommend_similarity)
  qed
  have "sorted (map (\<lambda>r. - similarity r) (sort_key (\<lambda>r. - similarity r) cands))"
    by (rule sorted_sort_key)
  then have "sorted_wrt (\<lambda>a b. similarity a \<ge> similarity b) (sort_key (\<lambda>r. - similarity r) cands)"
    by (simp add: sorted_map)
  then have p4: "sorted_wrt (\<lambda>a b. similarity a \<ge> similarity b) (getRecommendations t us n)"
    unfolding g by (rule sorted_wrt_take)
  have p5: "prefix (filter (\<lambda>r. similarity r = k) (getRecommendations t us n))
                   (filter (\<lambda>r. similarity r = k) cands)" for k
  proof -
    have "filter (\<lambda>r. - similarity r = - k) (sort_key (\<lambda>r. - similarity r) cands)
          = filter (\<lambda>r. - similarity r = - k) cands"
      by (rule sort_key_stable)
    then have "filter (\<lambda>r. similarity r = k) (sort_key (\<lambda>r. - similarity r) cands)
          = filter (\<lambda>r. similarity r = k) cands"
      by simp
    with filter_take_prefix [of "\<lambda>r. similarity r = k" m "sort_key (\<lambda>r. - similarity r) cands"]
    show ?thesis unfolding g by simp
  qed
  from p1 p2 p3 p4 p5 show ?thesis unfolding m_def cands_def by blast
qed

theorem getRecommendations_sorted_stable_witness:
  "map userId (getRecommendations user_1 [user_1, user_2, user_3] None) = [''U2'', ''U3''] \<and>
   userId (hd (getRecommendations user_1 [user_1, user_2, user_3] None)) \<noteq> userId user_1 \<and>
   length (getRecommendations user_1 [user_1, user_2, user_3] None) \<le> 10"
proof -
  let ?rs = "getRecommendations user_1 [user_1, user_2, user_3] None"
  have "?rs \<noteq> []" using recommendations_example by auto
  then have "hd ?rs \<in> set ?rs" by simp
  with getRecommendations_sorted_stable [of user_1 "[user_1, user_2, user_3]" None]
  show ?thesis using recommendations_example by simp
qed

section \<open>Claims about the local data synthesizer\<close>

text \<open>
  C6, as the specification states it, fails: with every draw equal to 0 the first
  synthetic user has 100 followers, 5 likes, 0 comments and 0 shares, so the rate
  derived from the stored fields is 5.00, and the stored rate is 6.00.
\<close>

theorem engagementRate_stored_fields_counterexample:
  "engagementRate (hd (fst (generateUserData None zero_rng 0 1)))
     \<noteq> spec_engagementRate (hd (fst (generateUserData None zero_rng 0 1)))"
  by (simp add: generateUserData_zero_rng generateUser_zero_rng spec_engagementRate_def
      or_int_def toFixed_def floor_numeral_div)

text \<open>
  C6, amended. For every user record of the synthesizer there are a draw \<open>r\<close> of the
  random source and the value \<open>L = followers * (0.05 + r * 0.1)\<close>, computed in
  doubles, such that the stored likes, comments and shares are the floors of \<open>L\<close>, of
  \<open>L * 0.15\<close> and of \<open>L * 0.05\<close>, and the stored engagement rate is
  \<open>(L + L * 0.15 + L * 0.05) / followers * 100\<close>, computed in doubles from \<open>L\<close>
  itself and not from the stored floors, to two decimal places. The followers are at
  least 100, so the quotient never has a zero denominator.
\<close>

theorem generateUserData_engagementRate:
  "\<forall>u \<in> set (fst (generateUserData None rnd k n)).
     \<exists>j F L. 100 \<le> F \<and> followers u = Some F \<and>
        L = fmul (of_int F)
              (fadd (round_double (5 / 100)) (fmul (random rnd j) (round_double (1 / 10)))) \<and>
        likes u = Some \<lfloor>L\<rfloor> \<and>
        comments u = Some \<lfloor>fmul L (round_double (15 / 100))\<rfloor> \<and>
        shares u = Some \<lfloor>fmul L (round_double (5 / 100))\<rfloor> \<and>
        engagementRate u =
          toFixed 2
            (fmul (fdiv (fadd (fadd L (fmul L (round_double (15 / 100))))
                              (fmul L (round_double (5 / 100))))
                        (of_int F))
                  100)"
proof
  fix u
  assume "u \<in> set (fst (generateUserData None rnd k n))"
  then have "u \<in> set (fst (generateUsers rnd k 0 n))"
    by (simp add: generateUserData_synthetic)
  then show "\<exists>j F L. 100 \<le> F \<and> followers u = Some F \<and>
        L = fmul (of_int F)
              (fadd (round_double (5 / 100)) (fmul (random rnd j) (round_double (1 / 10)))) \<and>
        likes u = Some \<lfloor>L\<rfloor> \<and>
        comments u = Some \<lfloor>fmul L (round_double (15 / 100))\<rfloor> \<and>
        shares u = Some \<lfloor>fmul L (round_double (5 / 100))\<rfloor> \<and>
        engagementRate u =
          toFixed 2
            (fmul (fdiv (fadd (fadd L (fmul L (round_double (15 / 100))))
                              (fmul L (round_double (5 / 100))))
                        (of_int F))
                  100)"
    by (rule generateUsers_all [rotated]) (rule generateUser_engagement)
qed

theorem generateUserData_engagementRate_witness:
  "\<exists>j F L. 100 \<le> F \<and> followers (fst (generateUser zero_rng 0 0)) = Some F \<and>
      L = fmul (of_int F)
            (fadd (round_double (5 / 100)) (fmul (random zero_rng j) (round_double (1 / 10)))) \<and>
      likes (fst (generateUser zero_rng 0 0)) = Some \<lfloor>L\<rfloor> \<and>
      comments (fst (generateUser zero_rng 0 0)) = Some \<lfloor>fmul L (round_double (15 / 100))\<rfloor> \<and>
      shares (fst (generateUser zero_rng 0 0)) = Some \<lfloor>fmul L (round_double (5 / 100))\<rfloor> \<and>
      engagementRate (fst (generateUser zero_rng 0 0)) =
        toFixed 2
          (fmul (fdiv (fadd (fadd L (fmul L (round_double (15 / 100))))
                            (fmul L (round_double (5 / 100))))
                      (of_int F))
                100)"
proof -
  have "fst (generateUser zero_rng 0 0) \<in> set (fst (generateUserData None zero_rng 0 1))"
    by (simp add: generateUserData_zero_rng)
  with generateUserData_engagementRate [of zero_rng 0 1] show ?thesis by blast
qed

text \<open>
  C7, as the specification states it, fails: with every draw equal to 0 the two draws
  of the inner loop give the same tag, and the first synthetic user has one interest.
\<close>

theorem generateUserData_interests_counterexample:
  "\<not> 2 \<le> length (or_list (interests (hd (fst (generateUserData None zero_rng 0 1)))))"
  by (simp add: generateUserData_zero_rng generateUser_zero_rng or_list_def)

text \<open>
  The influence score is rounded to three decimal places after it is drawn, so it
  reaches 0.800: it does with every draw equal to 2047/2048.
\<close>

lemma influenceScore_reaches_upper_bound:
  "influenceScore (fst (generateUser high_rng 0 0)) = Fixed 3 800"
  by (simp add: generateUser_def random_high_rng Let_def toFixed_def floor_numeral_div)

text \<open>
  C7, amended. For every population size \<open>n\<close> and every random source, the synthetic
  branch of \<open>generateUserData\<close> returns \<open>n\<close> records, each with between 1 and 5
  interests without duplicates, followers in [100, 50100), following in [50, 2050), posts
  in [10, 510), age in [18, 58), and an influence score of three decimal places between
  0.300 and 0.800, both included.
\<close>

theorem generateUserData_ranges:
  "length (fst (generateUserData None rnd k n)) = n \<and>
   (\<forall>u \<in> set (fst (generateUserData None rnd k n)).
      (case interests u of None \<Rightarrow> False
       | Some tags \<Rightarrow> 1 \<le> length tags \<and> length tags \<le> 5 \<and> distinct tags) \<and>
      in_range (followers u) 100 50100 \<and>
      in_range (following u) 50 2050 \<and>
      in_range (posts u) 10 510 \<and>
      in_range (age u) 18 58 \<and>
      (case influenceScore u of Fixed d m \<Rightarrow> d = 3 \<and> 300 \<le> m \<and> m \<le> 800 | _ \<Rightarrow> False))"
proof -
  let ?P = "\<lambda>u. (case interests u of None \<Rightarrow> False
       | Some tags \<Rightarrow> 1 \<le> length tags \<and> length tags \<le> 5 \<and> distinct tags) \<and>
      in_range (followers u) 100 50100 \<and>
      in_range (following u) 50 2050 \<and>
      in_range (posts u) 10 510 \<and>
      in_range (age u) 18 58 \<and>
      (case influenceScore u of Fixed d m \<Rightarrow> d = 3 \<and> 300 \<le> m \<and> m \<le> 800 | _ \<Rightarrow> False)"
  have one: "?P (fst (generateUser rnd k i))" for k i
    using generateUser_interests [of rnd k i] generateUser_ranges [of rnd k i]
      generateUser_influence [of rnd k i]
    by blast
  have "?P u" if "u \<in> set (fst (generateUsers rnd k 0 n))" for u
    using that by (rule generateUsers_all [rotated]) (rule one)
  then show ?thesis
    by (simp add: generateUserData_synthetic generateUsers_length)
qed

theorem generateUserData_ranges_witness:
  "length (fst (generateUserData None zero_rng 0 1)) = 1 \<and>
   interests (hd (fst (generateUserData None zero_rng 0 1))) = Some [''technology''] \<and>
   in_range (followers (hd (fst (generateUserData None zero_rng 0 1)))) 100 50100"
  using generateUserData_ranges [of zero_rng 0 1]
  by (simp add: generateUserData_zero_rng generateUser_zero_rng)

section \<open>Claims about the segment statistics and the segment colours\<close>

text \<open>
  C8, as the specification states it, fails: six users in six segments get 16.7 per
  cent each, and the percentages add up to 100.2.
\<close>

theorem getSegmentStats_percentages_counterexample:
  "\<not> \<bar>percentageSum (getSegmentStats six_users) - 100\<bar> \<le> 1 / 10"
  by (simp add: six_users_percentages)

text \<open>
  C8, amended. For every non-empty collection in which each user carries a segment
  whose name is not \<open>__proto__\<close>, the counts of \<open>getSegmentStats\<close> add up to the
  size of the collection, and its percentages add up to 100 within 0.05 for each
  segment of the result.
\<close>

theorem getSegmentStats_consistent:
  assumes "us \<noteq> []"
    and "\<forall>u \<in> set us. segment u \<noteq> None \<and> segment u \<noteq> Some ''__proto__''"
  shows "countSum (getSegmentStats us) = length us \<and>
         \<bar>percentageSum (getSegmentStats us) - 100\<bar>
           \<le> of_nat (length (getSegmentStats us)) * (1 / 20)"
proof -
  let ?ks = "uniq (map segment us)"
  let ?N = "of_nat (length us) :: rat"
  have N: "?N > 0" using assms(1) by simp
  have named: "\<forall>u \<in> set us. segment u \<noteq> None" using assms(2) by blast
  note m = getSegmentStats_map [OF named]
  have cnt: "(\<Sum>k\<leftarrow>?ks. length (filter (\<lambda>u. segment u = k) us)) = length us"
    by (rule count_by_key) (simp_all add: distinct_uniq set_uniq)
  have c: "countSum (getSegmentStats us) = length us"
    using cnt by (simp add: m countSum_def comp_def segmentStatsOf_def Let_def)
  have exact: "(\<Sum>k\<leftarrow>?ks. of_nat (length (filter (\<lambda>u. segment u = k) us)) / ?N * 100) = 100"
  proof -
    have "(\<Sum>k\<leftarrow>?ks. of_nat (length (filter (\<lambda>u. segment u = k) us)) / ?N * 100)
          = (\<Sum>k\<leftarrow>?ks. of_nat (length (filter (\<lambda>u. segment u = k) us)) * (100 / ?N))"
      by (simp add: field_simps)
    also have "\<dots> = (\<Sum>k\<leftarrow>?ks. of_nat (length (filter (\<lambda>u. segment u = k) us))) * (100 / ?N)"
      by (rule sum_list_mult_const)
    also have "(\<Sum>k\<leftarrow>?ks. of_nat (length (filter (\<lambda>u. segment u = k) us)) :: rat)
               = of_nat (length us)"
      using cnt by (simp add: of_nat_sum_list_map)
    finally show ?thesis using N by simp
  qed
  have "\<bar>(\<Sum>k\<leftarrow>?ks. parseFloatOr
               (toFixed 1 (of_nat (length (filter (\<lambda>u. segment u = k) us)) / ?N * 100)) 0)
         - (\<Sum>k\<leftarrow>?ks. of_nat (length (filter (\<lambda>u. segment u = k) us)) / ?N * 100)\<bar>
        \<le> of_nat (length ?ks) * (1 / 20)"
    by (rule sum_list_abs_diff) (rule toFixed1_error, simp)
  then have "\<bar>percentageSum (getSegmentStats us) - 100\<bar>
               \<le> of_nat (length (getSegmentStats us)) * (1 / 20)"
    unfolding exact by (simp add: m percentageSum_def comp_def segmentStatsOf_def Let_def)
  with c show ?thesis by simp
qed

theorem getSegmentStats_consistent_witness:
  "countSum (getSegmentStats six_users) = 6 \<and>
   \<bar>percentageSum (getSegmentStats six_users) - 100\<bar>
      \<le> of_nat (length (getSegmentStats six_users)) * (1 / 20)"
proof -
  have h: "six_users \<noteq> [] \<and>
           (\<forall>u \<in> set six_users. segment u \<noteq> None \<and> segment u \<noteq> Some ''__proto__'')"
    by (simp add: six_users_def sample_user_def)
  have l: "length six_users = 6" by (simp add: six_users_def)
  from getSegmentStats_consistent [of six_users] h l show ?thesis by simp
qed

text \<open>
  C5, as the specification states it, fails: the local path gives the first example
  user the segment \<open>Micro-Influencers\<close> with the colour #8b5cf6 of the catalog, and
  the remote mapping attaches #f87171 to that segment name.
\<close>

theorem segmentColor_paths_counterexample:
  "segmentColor (clusterUser user_1)
     \<noteq> Some (snd (remoteSegment (segment (clusterUser user_1))))"
  by (simp add: example_users clusterUser_def hasSegment_def truthy_str_def segments_def
      meets_def parseFloat_def remoteSegment_def getSegmentColor_def or_str_def)

text \<open>
  C5, amended. The colour of a catalog entry is the colour that \<open>getSegmentColor\<close>
  gives to its name exactly for the entries \<open>Highly Engaged\<close>, \<open>Growing Accounts\<close>,
  \<open>Casual Users\<close> and \<open>Newbies\<close>; and for a user record without a segment, the
  colour attached by \<open>performClustering\<close> is the one the remote mapping attaches to
  the assigned segment name exactly when that name is \<open>Highly Engaged\<close>,
  \<open>Growing Accounts\<close> or \<open>Casual Users\<close>.
\<close>

theorem segmentColor_paths_agree_iff:
  "(\<forall>s \<in> set segments.
      (color s = getSegmentColor (Some (name s)))
       = (name s \<in> {''Highly Engaged'', ''Growing Accounts'', ''Casual Users'', ''Newbies''})) \<and>
   (\<not> hasSegment u \<longrightarrow>
      (segmentColor (clusterUser u) = Some (snd (remoteSegment (segment (clusterUser u)))))
       = (segment (clusterUser u) \<in>
            {Some ''Highly Engaged'', Some ''Growing Accounts'', Some ''Casual Users''}))"
proof -
  have cat: "\<forall>s \<in> set segments.
      (color s = getSegmentColor (Some (name s)))
       = (name s \<in> {''Highly Engaged'', ''Growing Accounts'', ''Casual Users'', ''Newbies''})"
    by (simp add: segments_def getSegmentColor_def or_str_def)
  have loc: "(segmentColor (clusterUser u) = Some (snd (remoteSegment (segment (clusterUser u)))))
       = (segment (clusterUser u) \<in>
            {Some ''Highly Engaged'', Some ''Growing Accounts'', Some ''Casual Users''})"
    if "\<not> hasSegment u"
    using clusterUser_outcomes [OF that]
    by (auto simp: remoteSegment_def getSegmentColor_def or_str_def)
  from cat loc show ?thesis by blast
qed

theorem segmentColor_paths_agree_iff_witness:
  "segment (clusterUser user_3) = Some ''Casual Users'' \<and>
   segmentColor (clusterUser user_3)
     = Some (snd (remoteSegment (segment (clusterUser user_3))))"
proof -
  have h: "\<not> hasSegment user_3"
    by (simp add: example_users hasSegment_def truthy_str_def)
  have s: "segment (clusterUser user_3) = Some ''Casual Users''"
    by (simp add: example_users clusterUser_def hasSegment_def truthy_str_def segments_def
        meets_def parseFloat_def)
  from segmentColor_paths_agree_iff [of user_3] h s show ?thesis by simp
qed

section \<open>Claims about the data source orchestrator\<close>

text \<open>
  C4, as the specification states it, fails: when the backend answers the probe and the
  five requests for data and fails only the request for the initial recommendations,
  the inner handler computes the recommendations locally and \<open>initializeData\<close> ends
  with \<open>usingAPI\<close> set and with the users of the backend, not with a local dataset.
\<close>

theorem initializeData_fallback_counterexample:
  "checkAPIHealth backend_recs_fail \<and>
   fetchRecommendationsFromAPI backend_recs_fail (userId remote_user) = Inl FetchFailed \<and>
   usingAPI (initializeData None backend_recs_fail zero_rng initial_state) \<and>
   users (initializeData None backend_recs_fail zero_rng initial_state) = [remote_user]"
  using initializeData_recommendations_throw [of backend_recs_fail "[remote_user]" "[]"
      "[(''Paris'', 1)]" "[]" "[]" remote_user FetchFailed None zero_rng initial_state]
    backend_recs_fail_throws
  by simp

text \<open>
  The \<open>catch\<close> block of \<open>initializeData\<close> has no \<open>setUsingAPI(false)\<close>: after a
  failure of one of the five requests for data the flag keeps the value \<open>true\<close> that
  the \<open>apiAvailable\<close> branch gave it before the first request, while the branch taken
  when the probe fails sets it to \<open>false\<close>.
\<close>

lemma initializeData_flag_after_throw:
  assumes "checkAPIHealth b" and "remoteSequence b = Inl e"
  shows "usingAPI (initializeData kd b rnd s)"
  by (simp add: initializeData_throw [OF assms] Let_def)

text \<open>
  C4, amended. \<open>initializeData\<close> always returns a state, with \<open>loading\<close> cleared. If
  the probe reports the backend unavailable, it ends with \<open>usingAPI\<close> cleared and with
  a complete dataset computed locally from 1000 requested users. If the probe succeeds
  and one of the five requests for users, segment statistics, cities, hourly engagement
  and weekly trend throws, it ends with a complete dataset computed locally from 500
  requested users. If those five succeed and only the request for the initial
  recommendations throws, it keeps the data of the backend and computes the
  recommendations locally.
\<close>

theorem initializeData_fallback:
  "(\<not> checkAPIHealth b \<longrightarrow>
      \<not> usingAPI (initializeData kd b rnd s) \<and>
      localDataset kd rnd 1000 (initializeData kd b rnd s)) \<and>
   (checkAPIHealth b \<and> remoteSequence b = Inl e \<longrightarrow>
      localDataset kd rnd 500 (initializeData kd b rnd s)) \<and>
   (checkAPIHealth b \<and> remoteSequence b = Inr (cu, st, cs, ho, we) \<and> first cu = Some u \<and>
    fetchRecommendationsFromAPI b (userId u) = Inl e \<longrightarrow>
      users (initializeData kd b rnd s) = cu \<and>
      selectedUser (initializeData kd b rnd s) = Some u \<and>
      segmentStats (initializeData kd b rnd s) = st \<and>
      cityDistribution (initializeData kd b rnd s) = cs \<and>
      engagementByHour (initializeData kd b rnd s) = ho \<and>
      weeklyTrend (initializeData kd b rnd s) = we \<and>
      recommendations (initializeData kd b rnd s) = getRecommendations u cu None \<and>
      \<not> loading (initializeData kd b rnd s))"
  using initializeData_unavailable_local [of b kd rnd s]
    initializeData_throw_local [of b e kd rnd s]
    initializeData_recommendations_throw [of b cu st cs ho we u e kd rnd s]
  by blast

theorem initializeData_fallback_witness:
  "\<not> usingAPI (initializeData None backend_down zero_rng initial_state) \<and>
   localDataset None zero_rng 1000 (initializeData None backend_down zero_rng initial_state) \<and>
   localDataset None zero_rng 500
     (initializeData None backend_users_fail zero_rng initial_state) \<and>
   recommendations (initializeData None backend_recs_fail zero_rng initial_state)
     = getRecommendations remote_user [remote_user] None"
proof -
  from initializeData_fallback [of backend_down None zero_rng initial_state] backend_down_health
  have a: "\<not> usingAPI (initializeData None backend_down zero_rng initial_state) \<and>
           localDataset None zero_rng 1000 (initializeData None backend_down zero_rng initial_state)"
    by blast
  from initializeData_fallback [of backend_users_fail None zero_rng initial_state FetchFailed]
    backend_users_fail_throws
  have b: "localDataset None zero_rng 500
             (initializeData None backend_users_fail zero_rng initial_state)"
    by blast
  from initializeData_fallback [of backend_recs_fail None zero_rng initial_state FetchFailed
      "[remote_user]" "[]" "[(''Paris'', 1)]" "[]" "[]" remote_user]
    backend_recs_fail_throws
  have c: "recommendations (initializeData None backend_recs_fail zero_rng initial_state)
             = getRecommendations remote_user [remote_user] None"
    by blast
  from a b c show ?thesis by blast
qed

end
